theory Spec2Isabelle
  imports Complex_Main
begin

section \<open>Synthetic handwriting generators: data model\<close>

text \<open>
  The development embeds the two generators of the repository,
  \<^verbatim>\<open>gen_casia_company.py\<close> (flowing mode: a company name packed into one field) and
  \<^verbatim>\<open>gen_handwriting_chinese_price.py\<close> (slotted mode: nine capital-number slots).

  Modelling conventions.
  \<^item> A Python \<^verbatim>\<open>str\<close> is a list of code points (\<open>pystr\<close>); a one-character string
    used as a dictionary key is its code point (\<open>pychar\<close>).
  \<^item> A grayscale PIL image (mode \<^verbatim>\<open>L\<close>) is the list of its rows, each row the list of
    its intensities. \<^verbatim>\<open>getpixel\<close>, \<^verbatim>\<open>point\<close>, \<^verbatim>\<open>getbbox\<close> and \<^verbatim>\<open>crop\<close> are
    defined on that representation. \<^verbatim>\<open>rotate\<close> (bicubic) and \<^verbatim>\<open>MaxFilter\<close> compute
    pixel values outside the model and are parameters (\<open>pil_ops\<close>).
  \<^item> After extraction only the size of a mask matters to the source; a resized mask is
    represented by its size, and \<^verbatim>\<open>resize\<close> raises \<^verbatim>\<open>ValueError\<close> for a side
    below 1, as Pillow does.
  \<^item> The file system is a function from a path to the image \<^verbatim>\<open>Image.open\<close> yields
    there, \<open>None\<close> when opening raises.
  \<^item> The sample index of flowing mode is used as a dictionary (\<^verbatim>\<open>char not in char_map\<close>)
    and is a partial map; the index of slotted mode is read as \<^verbatim>\<open>char_map[c]\<close> on the
    \<^verbatim>\<open>defaultdict(list)\<close> that \<^verbatim>\<open>build_char_map\<close> returns and is a total function
    to lists.
  \<^item> Every call of the \<^verbatim>\<open>random\<close> module takes a raw draw (a natural number) from a
    record of draws, one field per call site, indexed by the iteration where the call
    sits in a loop. \<open>randint\<close>, \<open>choice\<close>, \<open>choices\<close>, \<open>random\<close> and \<open>uniform\<close>
    map the raw draw into the range the library function returns, so every value of a
    draw record is a possible run.
  \<^item> Python floats are exact rationals here, so the rounding of double-precision
    arithmetic is not represented; \<^verbatim>\<open>int(x)\<close> truncates towards zero.
  \<^item> A raised exception is \<open>Inl e\<close>; the pair \<^verbatim>\<open>(None, None)\<close> is \<open>Inr None\<close>.
  \<^item> An output image is represented by its crop box and the drawing operations applied
    to the canvas; colours, tint, blur and enhancement are not represented.
\<close>

datatype py_error = IndexError | KeyError | ValueError | ZeroDivisionError

type_synonym pychar = nat
type_synonym pystr = "nat list"
type_synonym path = string
type_synonym image = "nat list list"
type_synonym box = "int \<times> int \<times> int \<times> int"

definition box_0 :: "box \<Rightarrow> int" where "box_0 b = fst b"
definition box_1 :: "box \<Rightarrow> int" where "box_1 b = fst (snd b)"
definition box_2 :: "box \<Rightarrow> int" where "box_2 b = fst (snd (snd b))"
definition box_3 :: "box \<Rightarrow> int" where "box_3 b = snd (snd (snd b))"

datatype draw_op = Paste int int int int | Line "(int \<times> int) list" int

record rendered =
  out_box :: box
  out_ops :: "draw_op list"

subsection \<open>Python built-ins and the \<^verbatim>\<open>random\<close> module\<close>

definition py_int :: "rat \<Rightarrow> int" where
  "py_int q = (if 0 \<le> q then \<lfloor>q\<rfloor> else \<lceil>q\<rceil>)"

definition random_unit :: "nat \<Rightarrow> rat" where
  "random_unit v = of_nat (v mod 2 ^ 53) / 2 ^ 53"

definition uniform :: "rat \<Rightarrow> rat \<Rightarrow> nat \<Rightarrow> rat" where
  "uniform a b v = a + (b - a) * random_unit v"

definition randint_val :: "int \<Rightarrow> int \<Rightarrow> nat \<Rightarrow> int" where
  "randint_val a b v = a + int v mod (b - a + 1)"

definition randint :: "int \<Rightarrow> int \<Rightarrow> nat \<Rightarrow> py_error + int" where
  "randint a b v = (if b < a then Inl ValueError else Inr (randint_val a b v))"

definition py_min :: "int list \<Rightarrow> py_error + int" where
  "py_min xs = (case xs of [] \<Rightarrow> Inl ValueError | x # r \<Rightarrow> Inr (fold min r x))"

definition py_max :: "int list \<Rightarrow> py_error + int" where
  "py_max xs = (case xs of [] \<Rightarrow> Inl ValueError | x # r \<Rightarrow> Inr (fold max r x))"

definition choice :: "'a list \<Rightarrow> nat \<Rightarrow> py_error + 'a" where
  "choice seq v = (if seq = [] then Inl IndexError else Inr (seq ! (v mod length seq)))"

fun accumulate :: "int \<Rightarrow> int list \<Rightarrow> int list" where
  "accumulate acc [] = []"
| "accumulate acc (w # ws) = (acc + w) # accumulate (acc + w) ws"

definition bisect :: "int list \<Rightarrow> rat \<Rightarrow> nat \<Rightarrow> nat" where
  "bisect cum x hi = length (filter (\<lambda>c. of_int c \<le> x) (take hi cum))"

definition choices :: "'a list \<Rightarrow> int list \<Rightarrow> nat \<Rightarrow> py_error + 'a" where
  "choices population weights v =
     (let n = length population; cum_weights = accumulate 0 weights in
      if length cum_weights \<noteq> n then Inl ValueError
      else if cum_weights = [] then Inl IndexError
      else
        let total = last cum_weights in
        if total \<le> 0 then Inl ValueError
        else Inr (population ! bisect cum_weights (random_unit v * of_int total) (n - 1)))"

subsection \<open>PIL images\<close>

definition img_width :: "image \<Rightarrow> nat" where
  "img_width m = (case m of [] \<Rightarrow> 0 | r # _ \<Rightarrow> length r)"

definition img_height :: "image \<Rightarrow> nat" where
  "img_height m = length m"

definition getpixel00 :: "image \<Rightarrow> py_error + nat" where
  "getpixel00 m = (case m of (p # _) # _ \<Rightarrow> Inr p | _ \<Rightarrow> Inl IndexError)"

definition point :: "(nat \<Rightarrow> nat) \<Rightarrow> image \<Rightarrow> image" where
  "point f m = map (map f) m"

definition nonzero_rows :: "image \<Rightarrow> nat list" where
  "nonzero_rows m = filter (\<lambda>y. \<exists>p \<in> set (m ! y). p \<noteq> 0) [0..<length m]"

definition nonzero_cols :: "image \<Rightarrow> nat list" where
  "nonzero_cols m =
     filter (\<lambda>x. \<exists>row \<in> set m. x < length row \<and> row ! x \<noteq> 0) [0..<img_width m]"

definition getbbox :: "image \<Rightarrow> (nat \<times> nat \<times> nat \<times> nat) option" where
  "getbbox m =
     (if nonzero_rows m = [] \<or> nonzero_cols m = [] then None
      else Some (hd (nonzero_cols m), hd (nonzero_rows m),
                 Suc (last (nonzero_cols m)), Suc (last (nonzero_rows m))))"

definition crop :: "nat \<times> nat \<times> nat \<times> nat \<Rightarrow> image \<Rightarrow> image" where
  "crop b m =
     (case b of (left, upper, right, lower) \<Rightarrow>
        map (\<lambda>row. take (right - left) (drop left row)) (take (lower - upper) (drop upper m)))"

definition has_foreground :: "image \<Rightarrow> bool" where
  "has_foreground m = (\<exists>row \<in> set m. \<exists>p \<in> set row. p \<noteq> 0)"

record pil_ops =
  rotate :: "int \<Rightarrow> image \<Rightarrow> image"
  max_filter3 :: "image \<Rightarrow> image"

definition resize :: "int \<times> int \<Rightarrow> py_error + (int \<times> int)" where
  "resize sz = (if fst sz < 1 \<or> snd sz < 1 then Inl ValueError else Inr sz)"

section \<open>Flowing mode: \<^verbatim>\<open>gen_casia_company.py\<close>\<close>

subsection \<open>\<^verbatim>\<open>_get_char_mask\<close>\<close>

definition binarize_adaptive :: "image \<Rightarrow> image" where
  "binarize_adaptive img_gray =
     (let bg_pixel_value = (case getpixel00 img_gray of Inl _ \<Rightarrow> 255 | Inr p \<Rightarrow> p) in
      if bg_pixel_value > 128 then point (\<lambda>p. if p < 230 then 255 else 0) img_gray
      else point (\<lambda>p. if p > 50 then 255 else 0) img_gray)"

record mask_draws =
  md_pick :: nat
  md_angle :: nat

definition get_char_mask ::
  "pil_ops \<Rightarrow> (path \<Rightarrow> image option) \<Rightarrow> (pychar \<rightharpoonup> path list) \<Rightarrow> pychar \<Rightarrow> mask_draws
     \<Rightarrow> py_error + image option" where
  "get_char_mask pil files char_map c d =
     (case char_map c of
        None \<Rightarrow> Inr None
      | Some paths \<Rightarrow>
          (case choice paths (md_pick d) of
             Inl e \<Rightarrow> Inl e
           | Inr img_path \<Rightarrow>
               (case files img_path of
                  None \<Rightarrow> Inr None
                | Some img_gray \<Rightarrow>
                    (let msk = binarize_adaptive img_gray in
                     case getbbox msk of
                       None \<Rightarrow> Inr None
                     | Some bbox \<Rightarrow>
                         (let mask_cropped = crop bbox msk;
                              angle = randint_val (- 3) 3 (md_angle d);
                              mask_cropped_rotated = rotate pil angle mask_cropped in
                          case getbbox mask_cropped_rotated of
                            None \<Rightarrow> Inr (Some mask_cropped)
                          | Some bbox_rotated \<Rightarrow>
                              Inr (Some (crop bbox_rotated mask_cropped_rotated)))))))"


subsection \<open>\<^verbatim>\<open>generate_synthetic_image\<close>\<close>

record company_draws =
  cd_mask :: "nat \<Rightarrow> mask_draws"
  cd_spacing :: "nat \<Rightarrow> nat"
  cd_height :: nat
  cd_x_offset :: nat
  cd_y_jitter :: nat

text \<open>The loop of lines 139 to 144: one mask per character, stopping at the first failure.\<close>

fun get_masks ::
  "pil_ops \<Rightarrow> (path \<Rightarrow> image option) \<Rightarrow> (pychar \<rightharpoonup> path list) \<Rightarrow> (nat \<Rightarrow> mask_draws) \<Rightarrow> nat
     \<Rightarrow> pychar list \<Rightarrow> py_error + image list option" where
  "get_masks pil files char_map d i [] = Inr (Some [])"
| "get_masks pil files char_map d i (c # cs) =
     (case get_char_mask pil files char_map c (d i) of
        Inl e \<Rightarrow> Inl e
      | Inr None \<Rightarrow> Inr None
      | Inr (Some msk) \<Rightarrow>
          (case get_masks pil files char_map d (Suc i) cs of
             Inl e \<Rightarrow> Inl e
           | Inr None \<Rightarrow> Inr None
           | Inr (Some masks) \<Rightarrow> Inr (Some (msk # masks))))"

definition mask_size :: "image \<Rightarrow> int \<times> int" where
  "mask_size m = (int (img_width m), int (img_height m))"

text \<open>The body of the loop of lines 155 to 175, on the size \<open>(width, height)\<close> of a mask:
  \<open>Inr None\<close> is \<^verbatim>\<open>continue\<close>.\<close>

definition normalize_one :: "int \<Rightarrow> int \<times> int \<Rightarrow> py_error + (int \<times> int) option" where
  "normalize_one max_h m =
     (case m of (width, height) \<Rightarrow>
        if height = 0 then Inr None
        else
          let aspect_ratio = (of_int width / of_int height :: rat);
              is_flat_char = (aspect_ratio > 2) in
          if is_flat_char then
            let target_width = py_int (of_int max_h * (9 / 10));
                new_height = py_int (of_int target_width / aspect_ratio);
                new_height = max new_height (py_int (of_int max_h * (15 / 100))) in
            if target_width = 0 then Inr None
            else map_sum id Some (resize (target_width, new_height))
          else
            let new_height = max_h;
                new_width = py_int (of_int new_height * aspect_ratio) in
            if new_width = 0 then Inr None
            else map_sum id Some (resize (new_width, new_height)))"

fun normalize_masks :: "int \<Rightarrow> (int \<times> int) list \<Rightarrow> py_error + (int \<times> int) list" where
  "normalize_masks max_h [] = Inr []"
| "normalize_masks max_h (m # ms) =
     (case normalize_one max_h m of
        Inl e \<Rightarrow> Inl e
      | Inr r \<Rightarrow>
          (case normalize_masks max_h ms of
             Inl e \<Rightarrow> Inl e
           | Inr normalized \<Rightarrow> Inr (case r of None \<Rightarrow> normalized | Some n \<Rightarrow> n # normalized)))"

text \<open>Lines 199 to 204.\<close>

fun scale_masks :: "rat \<Rightarrow> (int \<times> int) list \<Rightarrow> py_error + (int \<times> int) list" where
  "scale_masks scale_factor [] = Inr []"
| "scale_masks scale_factor (m # ms) =
     (let nw = py_int (of_int (fst m) * scale_factor);
          nh = py_int (of_int (snd m) * scale_factor) in
      if nw = 0 \<or> nh = 0 then scale_masks scale_factor ms
      else
        (case resize (nw, nh) of
           Inl e \<Rightarrow> Inl e
         | Inr sz \<Rightarrow>
             (case scale_masks scale_factor ms of
                Inl e \<Rightarrow> Inl e
              | Inr scaled \<Rightarrow> Inr (sz # scaled))))"

record layout =
  lay_spacings :: "int list"
  lay_scale :: rat
  lay_scaled :: "(int \<times> int) list"

text \<open>Lines 181 to 206: spacings, scale factor and the scaled sizes. The generator calls this
  with \<open>max_h \<noteq> 0\<close> (line 151); the division of line 190 raises otherwise.\<close>

definition plan_layout ::
  "box \<Rightarrow> int \<Rightarrow> (int \<times> int) list \<Rightarrow> company_draws \<Rightarrow> py_error + layout option" where
  "plan_layout reference_field_bbox max_h masks d =
     (let spacings = map (\<lambda>i. randint_val 2 10 (cd_spacing d i)) [0..<length masks - 1];
          original_total_width = sum_list (map fst masks) + sum_list spacings in
      if original_total_width = 0 then Inr None
      else if max_h = 0 then Inl ZeroDivisionError
      else
        let field_width = box_2 reference_field_bbox - box_0 reference_field_bbox;
            field_height = box_3 reference_field_bbox - box_1 reference_field_bbox;
            target_height_px = of_int (field_height - 6) * uniform (3 / 4) (9 / 10) (cd_height d);
            scale_factor = target_height_px / of_int max_h;
            expected_width = of_int original_total_width * scale_factor;
            scale_factor =
              (if expected_width > of_int (field_width - 10)
               then of_int (field_width - 10) / of_int original_total_width
               else scale_factor);
            scale_factor = min (5 / 2) scale_factor in
        case scale_masks scale_factor masks of
          Inl e \<Rightarrow> Inl e
        | Inr scaled \<Rightarrow>
            if scaled = [] then Inr None
            else Inr (Some \<lparr>lay_spacings = spacings, lay_scale = scale_factor,
                            lay_scaled = scaled\<rparr>))"

definition total_w_scaled :: "layout \<Rightarrow> int" where
  "total_w_scaled l =
     sum_list (map fst (lay_scaled l))
       + sum_list (map (\<lambda>s. py_int (of_int s * lay_scale l)) (lay_spacings l))"

text \<open>The paste loop of lines 250 to 261; the state is the canvas operations, \<^verbatim>\<open>curr_x\<close>,
  \<^verbatim>\<open>real_min_y\<close> and \<^verbatim>\<open>real_max_y\<close>.\<close>

fun paste_chars ::
  "int \<Rightarrow> int \<Rightarrow> rat \<Rightarrow> int list \<Rightarrow> nat \<Rightarrow> draw_op list \<times> int \<times> int \<times> int \<Rightarrow> (int \<times> int) list
     \<Rightarrow> draw_op list \<times> int \<times> int \<times> int" where
  "paste_chars field_center_y global_y_jitter scale_factor spacings i st [] = st"
| "paste_chars field_center_y global_y_jitter scale_factor spacings i st (m # ms) =
     (case st of (canvas, curr_x, real_min_y, real_max_y) \<Rightarrow>
        let w = fst m; h = snd m;
            y_to_paste = field_center_y - (h div 2) + global_y_jitter;
            real_min_y = min real_min_y y_to_paste;
            real_max_y = max real_max_y (y_to_paste + h);
            canvas = canvas @ [Paste curr_x y_to_paste w h];
            curr_x = curr_x + w;
            curr_x = (if i < length spacings
                      then curr_x + py_int (of_int (spacings ! i) * scale_factor)
                      else curr_x) in
        paste_chars field_center_y global_y_jitter scale_factor spacings (Suc i)
          (canvas, curr_x, real_min_y, real_max_y) ms)"

text \<open>Lines 208 to 282, given the layout and the size of the loaded background.\<close>

definition compose :: "box \<Rightarrow> int \<times> int \<Rightarrow> layout \<Rightarrow> company_draws \<Rightarrow> rendered" where
  "compose reference_field_bbox canvas_size l d =
     (let field_width = box_2 reference_field_bbox - box_0 reference_field_bbox;
          field_height = box_3 reference_field_bbox - box_1 reference_field_bbox;
          min_x_offset = 5;
          max_x_offset = max min_x_offset (field_width - total_w_scaled l - 5);
          paste_x = box_0 reference_field_bbox
            + (if min_x_offset < max_x_offset
               then randint_val min_x_offset max_x_offset (cd_x_offset d)
               else min_x_offset);
          field_center_y = box_1 reference_field_bbox + (field_height div 2);
          global_y_jitter = randint_val (- 2) 2 (cd_y_jitter d) in
      case paste_chars field_center_y global_y_jitter (lay_scale l) (lay_spacings l) 0
             ([], paste_x, snd canvas_size, 0) (lay_scaled l) of
        (canvas, curr_x, real_min_y, real_max_y) \<Rightarrow>
          \<lparr>out_box = (max 0 (paste_x - 5), max 0 (real_min_y - 5),
                      min (fst canvas_size) (curr_x + 5), min (snd canvas_size) (real_max_y + 5)),
           out_ops = canvas\<rparr>)"

definition generate_synthetic_image ::
  "pil_ops \<Rightarrow> (path \<Rightarrow> image option) \<Rightarrow> (path \<Rightarrow> (int \<times> int) option) \<Rightarrow> (pychar \<rightharpoonup> path list)
     \<Rightarrow> path \<Rightarrow> box \<Rightarrow> pystr \<Rightarrow> company_draws \<Rightarrow> py_error + (rendered \<times> pystr) option" where
  "generate_synthetic_image pil files backgrounds char_map background_path
       reference_field_bbox company_name d =
     (let label = company_name;
          selected_char_list = label in
      if \<exists>c \<in> set selected_char_list. char_map c = None then Inr None
      else
        case get_masks pil files char_map (cd_mask d) 0 selected_char_list of
          Inl e \<Rightarrow> Inl e
        | Inr None \<Rightarrow> Inr None
        | Inr (Some processed_char_masks) \<Rightarrow>
            if processed_char_masks = [] then Inr None
            else
            (case py_max (map (snd \<circ> mask_size) processed_char_masks) of
               Inl e \<Rightarrow> Inl e
             | Inr max_h \<Rightarrow>
                 if max_h = 0 then Inr None
                 else
                   (case normalize_masks max_h (map mask_size processed_char_masks) of
                      Inl e \<Rightarrow> Inl e
                    | Inr normalized_char_masks \<Rightarrow>
                        if normalized_char_masks = [] then Inr None
                        else
                          (case plan_layout reference_field_bbox max_h normalized_char_masks d of
                             Inl e \<Rightarrow> Inl e
                           | Inr None \<Rightarrow> Inr None
                           | Inr (Some l) \<Rightarrow>
                               (case backgrounds background_path of
                                  None \<Rightarrow> Inr None
                                | Some canvas_size \<Rightarrow>
                                    Inr (Some (compose reference_field_bbox canvas_size l d,
                                               label)))))))"

section \<open>Slotted mode: \<^verbatim>\<open>gen_handwriting_chinese_price.py\<close>\<close>

definition STATIC_UNITS :: "pystr list" where
  "STATIC_UNITS = [[20740], [20191], [20336], [25342], [33836], [20191], [20336], [25342], [20803]]"

definition TARGET_CHAR_SET :: "pychar list" where
  "TARGET_CHAR_SET = [38646, 22777, 36019, 21443, 32902, 20237, 38520, 26578, 25420, 29590]"

definition DEFAULT_BBOXES :: "box list" where
  "DEFAULT_BBOXES =
     [(141, 493, 182, 532), (199, 492, 235, 534), (255, 492, 291, 534), (308, 492, 344, 534),
      (366, 492, 402, 534), (424, 491, 460, 533), (480, 492, 516, 534), (536, 492, 572, 534),
      (591, 490, 627, 532)]"

subsection \<open>\<^verbatim>\<open>_paste_single_char\<close>\<close>

definition binarize_fixed :: "image \<Rightarrow> image" where
  "binarize_fixed img_gray = point (\<lambda>p. if p < 200 then 255 else 0) img_gray"

record paste_draws =
  pd_pick :: nat
  pd_dilate :: nat
  pd_angle :: nat
  pd_height :: nat
  pd_scale :: nat
  pd_xjit :: nat
  pd_yjit :: nat

text \<open>Steps 1 to 4 of the source (lines 84 to 103): binarize, dilate with probability 0.2,
  crop, rotate, crop again. \<open>None\<close> is \<^verbatim>\<open>return False\<close>.\<close>

definition digit_mask :: "pil_ops \<Rightarrow> image \<Rightarrow> paste_draws \<Rightarrow> image option" where
  "digit_mask pil img_gray d =
     (let msk = binarize_fixed img_gray;
          msk = (if random_unit (pd_dilate d) < 2 / 10 then max_filter3 pil msk else msk) in
      case getbbox msk of
        None \<Rightarrow> None
      | Some digit_bbox \<Rightarrow>
          (let mask_cropped = crop digit_bbox msk;
               angle = randint_val (- 6) 6 (pd_angle d);
               mask_cropped = rotate pil angle mask_cropped in
           case getbbox mask_cropped of
             None \<Rightarrow> None
           | Some digit_bbox \<Rightarrow> Some (crop digit_bbox mask_cropped)))"

text \<open>Step 5 (lines 106 to 126): the size the mask is resized to. \<open>None\<close> is
  \<^verbatim>\<open>return False\<close>, reached at the zero check or through a caught
  \<^verbatim>\<open>ZeroDivisionError\<close> or a caught \<^verbatim>\<open>ValueError\<close> of \<^verbatim>\<open>resize\<close>.\<close>

definition slot_size :: "box \<Rightarrow> int \<times> int \<Rightarrow> paste_draws \<Rightarrow> (int \<times> int) option" where
  "slot_size bbox mask_cropped d =
     (let mask_width = fst mask_cropped;
          mask_height = snd mask_cropped;
          field_width = box_2 bbox - box_0 bbox;
          field_height = box_3 bbox - box_1 bbox;
          target_height_base = of_int field_height * uniform (7 / 10) (95 / 100) (pd_height d) in
      if mask_height = 0 then None
      else
        let scale_factor = target_height_base / of_int mask_height;
            char_specific_scale = scale_factor * uniform (9 / 10) (11 / 10) (pd_scale d);
            new_width = py_int (of_int mask_width * char_specific_scale);
            new_height = py_int (of_int mask_height * char_specific_scale);
            too_wide = (of_int new_width > of_int field_width * (12 / 10 :: rat)) in
        if too_wide \<and> mask_width = 0 then None
        else
          let scale_factor =
                (if too_wide then (of_int field_width * (12 / 10)) / of_int mask_width
                 else scale_factor);
              new_width =
                (if too_wide then py_int (of_int mask_width * scale_factor) else new_width);
              new_height =
                (if too_wide then py_int (of_int mask_height * scale_factor) else new_height) in
          if new_width = 0 \<or> new_height = 0 then None
          else (case resize (new_width, new_height) of Inl _ \<Rightarrow> None | Inr sz \<Rightarrow> Some sz))"

text \<open>Step 6 (lines 130 to 137): the paste position; \<open>None\<close> when \<^verbatim>\<open>randint\<close> raises on an
  empty range, which the source catches.\<close>

definition slot_position :: "box \<Rightarrow> int \<times> int \<Rightarrow> paste_draws \<Rightarrow> (int \<times> int) option" where
  "slot_position bbox new_size d =
     (let field_width = box_2 bbox - box_0 bbox;
          field_height = box_3 bbox - box_1 bbox;
          x_center_offset = (field_width - fst new_size) div 2;
          y_center_offset = (field_height - snd new_size) div 2 in
      case randint ((- field_width) div 8) (field_width div 8) (pd_xjit d) of
        Inl _ \<Rightarrow> None
      | Inr x_jitter \<Rightarrow>
          (case randint ((- field_height) div 8) (field_height div 8) (pd_yjit d) of
             Inl _ \<Rightarrow> None
           | Inr y_jitter \<Rightarrow>
               Some (box_0 bbox + x_center_offset + x_jitter,
                     box_1 bbox + y_center_offset + y_jitter)))"

text \<open>The index is a \<^verbatim>\<open>defaultdict(list)\<close>: a character without samples maps to the empty
  list. Every exception inside the body is caught and makes the result \<^verbatim>\<open>False\<close>; the
  canvas is returned with the result because \<^verbatim>\<open>paste\<close> mutates it.\<close>

definition paste_single_char ::
  "pil_ops \<Rightarrow> (path \<Rightarrow> image option) \<Rightarrow> (pychar \<Rightarrow> path list) \<Rightarrow> draw_op list \<Rightarrow> pychar \<Rightarrow> box
     \<Rightarrow> paste_draws \<Rightarrow> bool \<times> draw_op list" where
  "paste_single_char pil files char_map canvas char_to_draw bbox d =
     (if char_map char_to_draw = [] then (False, canvas)
      else
        case choice (char_map char_to_draw) (pd_pick d) of
          Inl _ \<Rightarrow> (False, canvas)
        | Inr img_path \<Rightarrow>
            (case files img_path of
               None \<Rightarrow> (False, canvas)
             | Some img_gray \<Rightarrow>
                 (case digit_mask pil img_gray d of
                    None \<Rightarrow> (False, canvas)
                  | Some mask_cropped \<Rightarrow>
                      (case slot_size bbox (mask_size mask_cropped) d of
                         None \<Rightarrow> (False, canvas)
                       | Some new_size \<Rightarrow>
                           (case slot_position bbox new_size d of
                              None \<Rightarrow> (False, canvas)
                            | Some paste_xy \<Rightarrow>
                                (True,
                                 canvas @ [Paste (fst paste_xy) (snd paste_xy) (fst new_size)
                                             (snd new_size)]))))))"

subsection \<open>\<^verbatim>\<open>generate_capital_number_image\<close>\<close>

record price_draws =
  pr_line_width :: nat
  pr_start :: nat
  pr_digit :: "nat \<Rightarrow> nat"
  pr_paste :: "nat \<Rightarrow> paste_draws"
  pr_strike :: nat
  pr_inset_start :: nat
  pr_inset_end :: nat
  pr_base :: nat
  pr_step :: "nat \<Rightarrow> nat"
  pr_tremor :: "nat \<Rightarrow> nat"
  pr_last :: nat

text \<open>Lines 200 to 202.\<close>

definition choose_start_index :: "nat \<Rightarrow> nat \<Rightarrow> py_error + nat" where
  "choose_start_index n v =
     (let indices = [0..<n];
          weights = [1, 1, 1, 1, 2, 3, 4, 5, 5] in
      choices indices weights v)"

text \<open>The loop of lines 207 to 231, from slot \<open>i\<close> on; the state is \<^verbatim>\<open>label_chars\<close>,
  \<^verbatim>\<open>line_bboxes\<close> and the canvas. \<open>n\<close> is \<^verbatim>\<open>len(target_bboxes)\<close>. The result of
  \<^verbatim>\<open>_paste_single_char\<close> is dropped, as in the source.\<close>

fun fill_slots ::
  "pil_ops \<Rightarrow> (path \<Rightarrow> image option) \<Rightarrow> (pychar \<Rightarrow> path list) \<Rightarrow> pystr list \<Rightarrow> nat \<Rightarrow> nat
     \<Rightarrow> price_draws \<Rightarrow> nat \<Rightarrow> pystr list \<times> box list \<times> draw_op list \<Rightarrow> box list
     \<Rightarrow> py_error + pystr list \<times> box list \<times> draw_op list" where
  "fill_slots pil files char_map static_units n start_index d i st [] = Inr st"
| "fill_slots pil files char_map static_units n start_index d i st (bbox # rest) =
     (case st of (label_chars, line_bboxes, canvas) \<Rightarrow>
        if length static_units \<le> i then Inl IndexError
        else
          let unit_char = static_units ! i in
          if i < start_index then
            fill_slots pil files char_map static_units n start_index d (Suc i)
              (label_chars @ [32 # unit_char], line_bboxes @ [bbox], canvas) rest
          else if i = start_index then
            (let current_char_set =
                   (if int i = int n - 1 then TARGET_CHAR_SET else tl TARGET_CHAR_SET) in
             case choice current_char_set (pr_digit d i) of
               Inl e \<Rightarrow> Inl e
             | Inr char_to_draw \<Rightarrow>
                 fill_slots pil files char_map static_units n start_index d (Suc i)
                   (label_chars @ [char_to_draw # unit_char], line_bboxes,
                    snd (paste_single_char pil files char_map canvas char_to_draw bbox
                           (pr_paste d i))) rest)
          else
            (case choice TARGET_CHAR_SET (pr_digit d i) of
               Inl e \<Rightarrow> Inl e
             | Inr char_to_draw \<Rightarrow>
                 fill_slots pil files char_map static_units n start_index d (Suc i)
                   (label_chars @ [char_to_draw # unit_char], line_bboxes,
                    snd (paste_single_char pil files char_map canvas char_to_draw bbox
                           (pr_paste d i))) rest))"

text \<open>The first character of the label segment that the loop appends for slot \<open>i\<close>
  (lines 212, 224 and 230): the blank marker before the start index, otherwise the drawn
  digit. \<open>fill_slots_label\<close> below proves that the loop appends exactly these.\<close>

definition slot_char :: "nat \<Rightarrow> nat \<Rightarrow> price_draws \<Rightarrow> nat \<Rightarrow> pychar" where
  "slot_char n start_index d i =
     (if i < start_index then 32
      else if i = start_index then
        (if int i = int n - 1 then TARGET_CHAR_SET ! (pr_digit d i mod 10)
         else tl TARGET_CHAR_SET ! (pr_digit d i mod 9))
      else TARGET_CHAR_SET ! (pr_digit d i mod 10))"

text \<open>The \<^verbatim>\<open>while\<close> loop of lines 248 to 253: the points appended from iteration \<open>k\<close> on.\<close>

function wavy_points ::
  "(nat \<Rightarrow> nat) \<Rightarrow> (nat \<Rightarrow> nat) \<Rightarrow> int \<Rightarrow> int \<Rightarrow> nat \<Rightarrow> int \<Rightarrow> (int \<times> int) list" where
  "wavy_points step tremor x_end base_y k x =
     (if x < x_end then
        (let x_step = randint_val 30 70 (step k);
             x' = min (x + x_step) x_end;
             y_tremor = randint_val (- 4) 4 (tremor k) in
         (x', base_y + y_tremor) # wavy_points step tremor x_end base_y (Suc k) x')
      else [])"
  by pat_completeness auto

termination
proof (relation "measure (\<lambda>(step, tremor, x_end, base_y, k, x). nat (x_end - x))")
  show "wf (measure (\<lambda>(step, tremor, x_end, base_y, k, x). nat (x_end - x)))"
    by simp
next
  fix step tremor :: "nat \<Rightarrow> nat" and x_end base_y :: int and k :: nat and x x_step x' :: int
  assume "x < x_end" and "x_step = randint_val 30 70 (step k)" and "x' = min (x + x_step) x_end"
  moreover have "(0::int) < 30 + int (step k) mod 41"
    by (simp add: add_pos_nonneg)
  ultimately show "((step, tremor, x_end, base_y, Suc k, x'), (step, tremor, x_end, base_y, k, x))
      \<in> measure (\<lambda>(step, tremor, x_end, base_y, k, x). nat (x_end - x))"
    by (simp add: randint_val_def min_def)
qed

text \<open>Lines 236 to 255 (the body of the \<^verbatim>\<open>try\<close>): the points handed to \<^verbatim>\<open>draw.line\<close>.\<close>

definition strike_points :: "box list \<Rightarrow> price_draws \<Rightarrow> py_error + (int \<times> int) list" where
  "strike_points line_bboxes d =
     (case line_bboxes of
        [] \<Rightarrow> Inl IndexError
      | ref_bbox # _ \<Rightarrow>
          (let field_height = box_3 ref_bbox - box_1 ref_bbox;
               y_center = (box_1 ref_bbox + box_3 ref_bbox) div 2 in
           case py_min (map box_0 line_bboxes) of
             Inl e \<Rightarrow> Inl e
           | Inr left \<Rightarrow>
               (case py_max (map box_2 line_bboxes) of
                  Inl e \<Rightarrow> Inl e
                | Inr right \<Rightarrow>
                    (let x_start = left + randint_val 3 10 (pr_inset_start d);
                         x_end = right - randint_val 3 10 (pr_inset_end d);
                         x = x_start in
                     case randint ((- field_height) div 4) (field_height div 4) (pr_base d) of
                       Inl e \<Rightarrow> Inl e
                     | Inr offset \<Rightarrow>
                         (let base_y = y_center + offset;
                              points = (x, base_y)
                                # wavy_points (pr_step d) (pr_tremor d) x_end base_y 0 x;
                              points = points[length points - 1 :=
                                         (x_end, base_y + randint_val (- 2) 2 (pr_last d))] in
                          Inr points)))))"

text \<open>Lines 160 to 296. A background that fails to load is \<open>None\<close>, otherwise its size.\<close>

definition generate_capital_number_image ::
  "pil_ops \<Rightarrow> (path \<Rightarrow> image option) \<Rightarrow> (path \<Rightarrow> (int \<times> int) option) \<Rightarrow> (pychar \<Rightarrow> path list)
     \<Rightarrow> path \<Rightarrow> box list \<Rightarrow> pystr list \<Rightarrow> price_draws
     \<Rightarrow> py_error + (rendered \<times> pystr) option" where
  "generate_capital_number_image pil files backgrounds char_map background_path target_bboxes
       static_units d =
     (case backgrounds background_path of
        None \<Rightarrow> Inr None
      | Some canvas_size \<Rightarrow>
          (let line_width = randint_val 2 4 (pr_line_width d) in
           case choose_start_index (length target_bboxes) (pr_start d) of
             Inl e \<Rightarrow> Inl e
           | Inr start_index \<Rightarrow>
               (case fill_slots pil files char_map static_units (length target_bboxes)
                       start_index d 0 ([], [], []) target_bboxes of
                  Inl e \<Rightarrow> Inl e
                | Inr (label_chars, line_bboxes, canvas) \<Rightarrow>
                    (let canvas =
                           (if line_bboxes \<noteq> [] \<and> random_unit (pr_strike d) < 1 / 2 then
                              (case strike_points line_bboxes d of
                                 Inl _ \<Rightarrow> canvas
                               | Inr points \<Rightarrow> canvas @ [Line points line_width])
                            else canvas);
                         final_label = concat label_chars in
                     case py_min (map box_0 target_bboxes) of
                       Inl e \<Rightarrow> Inl e
                     | Inr min_x \<Rightarrow>
                         (case py_min (map box_1 target_bboxes) of
                            Inl e \<Rightarrow> Inl e
                          | Inr min_y \<Rightarrow>
                              (case py_max (map box_3 target_bboxes) of
                                 Inl e \<Rightarrow> Inl e
                               | Inr max_y \<Rightarrow>
                                   (let max_x_override = 650;
                                        padding = 5;
                                        final_crop_box =
                                          (max 0 (min_x - padding), max 0 (min_y - padding),
                                           min (fst canvas_size) max_x_override,
                                           min (snd canvas_size) (max_y + padding)) in
                                    if box_0 final_crop_box \<ge> box_2 final_crop_box
                                       \<or> box_1 final_crop_box \<ge> box_3 final_crop_box
                                    then Inr None
                                    else Inr (Some (\<lparr>out_box = final_crop_box, out_ops = canvas\<rparr>,
                                                    final_label)))))))))"

section \<open>Example inputs\<close>

text \<open>A PIL stand-in whose rotation and dilation return the mask unchanged, a file system
  with a dark glyph on a light background (\<open>a.png\<close>) and a blank light sample
  (\<open>b.png\<close>), and the index of both.\<close>

definition ex_pil :: pil_ops where
  "ex_pil = \<lparr>rotate = (\<lambda>angle m. m), max_filter3 = (\<lambda>m. m)\<rparr>"

definition ex_files :: "path \<Rightarrow> image option" where
  "ex_files p =
     (if p = ''a.png'' then Some [[255, 0], [255, 255]]
      else if p = ''b.png'' then Some [[255, 240]]
      else None)"

definition ex_index :: "pychar \<rightharpoonup> path list" where
  "ex_index = [65 \<mapsto> [''a.png''], 66 \<mapsto> [''b.png'']]"

definition ex_mask_draws :: mask_draws where
  "ex_mask_draws = \<lparr>md_pick = 0, md_angle = 3\<rparr>"

text \<open>A PIL stand-in whose rotation returns a blank mask, a slotted-mode index that maps
  every character to the sample \<open>a.png\<close>, and draws for one paste.\<close>

definition ex_blank_pil :: pil_ops where
  "ex_blank_pil = \<lparr>rotate = (\<lambda>angle m. [[0]]), max_filter3 = (\<lambda>m. m)\<rparr>"

definition ex_digit_index :: "pychar \<Rightarrow> path list" where
  "ex_digit_index c = [''a.png'']"

definition ex_paste_draws :: paste_draws where
  "ex_paste_draws = \<lparr>pd_pick = 0, pd_dilate = 0, pd_angle = 0, pd_height = 0, pd_scale = 0,
     pd_xjit = 0, pd_yjit = 0\<rparr>"

text \<open>A background of 700 by 600 pixels and draws for one slotted generation: the start draw
  \<open>2 ^ 51\<close> is the uniform number 1/4, which the weights map to start index 4.\<close>

definition ex_backgrounds :: "path \<Rightarrow> (int \<times> int) option" where
  "ex_backgrounds p = (if p = ''bg.png'' then Some (700, 600) else None)"

definition ex_price_draws :: price_draws where
  "ex_price_draws = \<lparr>pr_line_width = 0, pr_start = 2 ^ 51, pr_digit = (\<lambda>i. i),
     pr_paste = (\<lambda>i. ex_paste_draws), pr_strike = 0, pr_inset_start = 0, pr_inset_end = 0,
     pr_base = 0, pr_step = (\<lambda>k. 0), pr_tremor = (\<lambda>k. 0), pr_last = 0\<rparr>"

text \<open>The index of a corpus that has the sample \<open>a.png\<close> for every character but the capital
  zero (code point 38646), and draws that give start index 0, the first non-zero digit at
  the start index and zero in every later slot.\<close>

definition ex_no_zero_index :: "pychar \<Rightarrow> path list" where
  "ex_no_zero_index c = (if c = 38646 then [] else [''a.png''])"

definition ex_zero_draws :: price_draws where
  "ex_zero_draws = \<lparr>pr_line_width = 0, pr_start = 0, pr_digit = (\<lambda>i. 0),
     pr_paste = (\<lambda>i. ex_paste_draws), pr_strike = 0, pr_inset_start = 0, pr_inset_end = 0,
     pr_base = 0, pr_step = (\<lambda>k. 0), pr_tremor = (\<lambda>k. 0), pr_last = 0\<rparr>"

text \<open>Draws for one flowing generation.\<close>

definition ex_company_draws :: company_draws where
  "ex_company_draws = \<lparr>cd_mask = (\<lambda>i. ex_mask_draws), cd_spacing = (\<lambda>i. 0), cd_height = 0,
     cd_x_offset = 0, cd_y_jitter = 0\<rparr>"

section \<open>Evaluating \<open>py_int\<close> on rational numerals\<close>

lemma floor_rat_numeral [simp]:
  "\<lfloor>numeral a / numeral b :: rat\<rfloor> = numeral a div numeral b"
  by (metis floor_divide_of_int_eq of_int_numeral)

lemma floor_rat_neg_numeral [simp]:
  "\<lfloor>- (numeral a / numeral b) :: rat\<rfloor> = - numeral a div numeral b"
  by (metis divide_minus_left floor_divide_of_int_eq of_int_neg_numeral of_int_numeral)

lemma ceiling_rat_numeral [simp]:
  "\<lceil>numeral a / numeral b :: rat\<rceil> = - (- numeral a div numeral b)"
  unfolding ceiling_def by (simp del: div_minus_minus)

lemma ceiling_rat_neg_numeral [simp]:
  "\<lceil>- (numeral a / numeral b) :: rat\<rceil> = - (numeral a div numeral b)"
  unfolding ceiling_def by simp

section \<open>Mask extraction\<close>

lemma filter_upt_bounds:
  assumes "y \<in> set (filter P [0..<n])"
  shows "hd (filter P [0..<n]) \<le> y" and "y \<le> last (filter P [0..<n])"
proof -
  let ?xs = "filter P [0..<n]"
  have s: "sorted ?xs"
    by (simp add: sorted_wrt_filter)
  from assms have ne: "?xs \<noteq> []"
    by (metis length_pos_if_in_set length_greater_0_conv)
  then obtain a as where "?xs = a # as"
    by (cases ?xs) auto
  with s assms show "hd ?xs \<le> y"
    by auto
  from ne obtain bs b where "?xs = bs @ [b]"
    by (metis rev_exhaust)
  with s assms show "y \<le> last ?xs"
    by (auto simp: sorted_append)
qed

text \<open>Cropping to the bounding box keeps a foreground pixel: the leftmost foreground
  column holds a non-zero pixel in some row, and that row lies in the box.\<close>

lemma getbbox_crop_foreground:
  assumes "getbbox m = Some b"
  shows "has_foreground (crop b m)"
proof -
  let ?cols = "nonzero_cols m" and ?rows = "nonzero_rows m"
  from assms have ne: "?rows \<noteq> []" "?cols \<noteq> []"
    and b: "b = (hd ?cols, hd ?rows, Suc (last ?cols), Suc (last ?rows))"
    by (auto simp: getbbox_def split: if_splits)
  define x where "x = hd ?cols"
  have xin: "x \<in> set ?cols"
    using ne by (simp add: x_def)
  then obtain row where row: "row \<in> set m" "x < length row" "row ! x \<noteq> 0"
    by (auto simp: nonzero_cols_def)
  then obtain y where y: "y < length m" "m ! y = row"
    by (auto simp: in_set_conv_nth)
  have "\<exists>p \<in> set (m ! y). p \<noteq> 0"
    using row y by (metis nth_mem)
  with y have "y \<in> set ?rows"
    by (simp add: nonzero_rows_def)
  then have le: "hd ?rows \<le> y" "y \<le> last ?rows"
    unfolding nonzero_rows_def by (rule filter_upt_bounds)+
  let ?row' = "take (Suc (last ?cols) - x) (drop x row)"
  have "?row' \<in> set (crop b m)"
  proof -
    let ?band = "take (Suc (last ?rows) - hd ?rows) (drop (hd ?rows) m)"
    have "?band ! (y - hd ?rows) = m ! y"
      using le y by simp
    moreover have "y - hd ?rows < length ?band"
      using le y by (simp, arith)
    ultimately have "row \<in> set ?band"
      using y(2) by (metis nth_mem)
    then show ?thesis
      by (simp add: crop_def b x_def)
  qed
  moreover have "x \<le> last ?cols"
    using xin unfolding nonzero_cols_def x_def by (meson filter_upt_bounds(2))
  then have "?row' ! 0 = row ! x" "0 < length ?row'"
    using row by simp_all
  then have "\<exists>p \<in> set ?row'. p \<noteq> 0"
    using row(3) by (metis nth_mem)
  ultimately show ?thesis
    by (auto simp: has_foreground_def)
qed

lemma getbbox_no_foreground: "\<not> has_foreground m \<Longrightarrow> getbbox m = None"
proof -
  assume "\<not> has_foreground m"
  then have "nonzero_rows m = []"
    by (auto simp: has_foreground_def nonzero_rows_def filter_empty_conv)
  then show ?thesis
    by (simp add: getbbox_def)
qed

text \<open>
  Claim C6. For a character with at least one sample in the index, a mask returned by
  \<^verbatim>\<open>_get_char_mask\<close> has at least one foreground pixel, and a sample whose thresholding
  is all background makes the extraction return \<^verbatim>\<open>None\<close> instead of a mask.
\<close>

theorem extracted_mask_has_foreground:
  assumes "char_map c = Some paths" and "paths \<noteq> []"
  shows "(\<forall>m. get_char_mask pil files char_map c d = Inr (Some m) \<longrightarrow> has_foreground m)
       \<and> (\<forall>img. files (paths ! (md_pick d mod length paths)) = Some img
                  \<and> \<not> has_foreground (binarize_adaptive img)
             \<longrightarrow> get_char_mask pil files char_map c d = Inr None)"
proof (intro conjI allI impI)
  fix m
  assume "get_char_mask pil files char_map c d = Inr (Some m)"
  then show "has_foreground m"
    using assms
    by (auto simp: get_char_mask_def choice_def Let_def getbbox_crop_foreground
             split: option.splits if_splits)
next
  fix img
  assume "files (paths ! (md_pick d mod length paths)) = Some img
            \<and> \<not> has_foreground (binarize_adaptive img)"
  then show "get_char_mask pil files char_map c d = Inr None"
    using assms by (simp add: get_char_mask_def choice_def getbbox_no_foreground)
qed

theorem extracted_mask_has_foreground_witness:
  "ex_index 65 = Some [''a.png''] \<and> [''a.png''] \<noteq> []
   \<and> get_char_mask ex_pil ex_files ex_index 65 ex_mask_draws = Inr (Some [[255]])
   \<and> has_foreground [[255]]
   \<and> ex_index 66 = Some [''b.png''] \<and> ex_files ''b.png'' = Some [[255, 240]]
   \<and> \<not> has_foreground (binarize_adaptive [[255, 240]])
   \<and> get_char_mask ex_pil ex_files ex_index 66 ex_mask_draws = Inr None"
proof -
  have a: "ex_index 65 = Some [''a.png'']" and b: "ex_index 66 = Some [''b.png'']"
    by (simp_all add: ex_index_def)
  have ne: "[''a.png''] \<noteq> []" "[''b.png''] \<noteq> []"
    by simp_all
  have r: "get_char_mask ex_pil ex_files ex_index 65 ex_mask_draws = Inr (Some [[255]])"
    by code_simp
  have f: "ex_files ([''b.png''] ! (md_pick ex_mask_draws mod length [''b.png''])) = Some [[255, 240]]"
    by (simp add: ex_files_def)
  have e: "\<not> has_foreground (binarize_adaptive [[255, 240]])"
    by code_simp
  from extracted_mask_has_foreground
         [of ex_index 65 "[''a.png'']" ex_pil ex_files ex_mask_draws, OF a ne(1)] r
  have "has_foreground [[255]]"
    by blast
  moreover
  from extracted_mask_has_foreground
         [of ex_index 66 "[''b.png'']" ex_pil ex_files ex_mask_draws, OF b ne(2)] f e
  have "get_char_mask ex_pil ex_files ex_index 66 ex_mask_draws = Inr None"
    by blast
  ultimately show ?thesis
    using a b r e by (simp add: ex_files_def)
qed

text \<open>
  Claim C2, as stated, fails in slotted mode: \<^verbatim>\<open>_paste_single_char\<close> does not look at the
  corner pixel. On the light sample with the pixels 255 and 210 the corner is above 128 and
  the claim makes the second pixel foreground (210 is below 230); the source makes it
  background (210 is not below 200).
\<close>

theorem slotted_binarization_not_adaptive:
  "\<not> (binarize_fixed [[255, 210]] ! 0 ! 1 \<noteq> 0
        \<longleftrightarrow> (if [[255, 210::nat]] ! 0 ! 0 > 128 then [[255, 210::nat]] ! 0 ! 1 < 230
             else [[255, 210::nat]] ! 0 ! 1 > 50))"
  by (simp add: binarize_fixed_def point_def)

text \<open>
  Claim C2, amended. In flowing mode the binarization is adaptive: with the top-left
  pixel above 128 the foreground is exactly the pixels below 230, otherwise exactly the
  pixels above 50. In slotted mode the threshold is fixed: the foreground of the
  binarization is exactly the pixels below 200, whatever the corner pixel is.
\<close>

theorem binarization_thresholds:
  assumes "getpixel00 img_gray = Inr bg" and "y < length img_gray" and "x < length (img_gray ! y)"
  shows "(binarize_adaptive img_gray ! y ! x \<noteq> 0
           \<longleftrightarrow> (if bg > 128 then img_gray ! y ! x < 230 else img_gray ! y ! x > 50))
       \<and> (binarize_fixed img_gray ! y ! x \<noteq> 0 \<longleftrightarrow> img_gray ! y ! x < 200)"
  using assms by (simp add: binarize_adaptive_def binarize_fixed_def point_def)

theorem binarization_thresholds_witness:
  "getpixel00 [[200, 210], [40, 250]] = Inr 200 \<and> (1::nat) < length [[200, 210], [40, 250::nat]]
   \<and> (0::nat) < length ([[200, 210], [40, 250::nat]] ! 1)
   \<and> binarize_adaptive [[200, 210], [40, 250]] ! 1 ! 0 \<noteq> 0
   \<and> binarize_fixed [[200, 210], [40, 250]] ! 1 ! 0 \<noteq> 0"
  using binarization_thresholds [of "[[200, 210], [40, 250]]" 200 1 0]
  by (simp add: getpixel00_def)

text \<open>
  Claim C5, as stated, fails in slotted mode: when the rotated mask has no foreground,
  \<^verbatim>\<open>_paste_single_char\<close> returns \<^verbatim>\<open>False\<close> and pastes nothing. Here the sample has a
  bounding box, the rotation yields a blank mask, and the paste fails.
\<close>

theorem slotted_recrop_fails:
  "getbbox (binarize_fixed [[255, 0], [255, 255]]) = Some (1, 0, 2, 1)
   \<and> getbbox (rotate ex_blank_pil (randint_val (- 6) 6 (pd_angle ex_paste_draws))
                (crop (1, 0, 2, 1) (binarize_fixed [[255, 0], [255, 255]]))) = None
   \<and> paste_single_char ex_blank_pil ex_files ex_digit_index [] 22777 (0, 0, 40, 40) ex_paste_draws
       = (False, [])"
proof -
  have b1: "getbbox (binarize_fixed [[255, 0], [255, 255]]) = Some (1, 0, 2, 1)"
    by code_simp
  have b2: "getbbox [[0]] = None"
    by code_simp
  have "digit_mask ex_blank_pil [[255, 0], [255, 255]] ex_paste_draws = None"
    by (simp add: digit_mask_def Let_def b1 b2 ex_blank_pil_def)
  then have "paste_single_char ex_blank_pil ex_files ex_digit_index [] 22777 (0, 0, 40, 40)
               ex_paste_draws = (False, [])"
    by (simp add: paste_single_char_def ex_digit_index_def choice_def ex_files_def)
  with b1 b2 show ?thesis
    by (simp add: ex_blank_pil_def)
qed

text \<open>
  Claim C5, amended. When the rotated mask has no foreground, flowing mode
  (\<^verbatim>\<open>_get_char_mask\<close>) returns the cropped mask from before the rotation, and slotted mode
  (\<^verbatim>\<open>_paste_single_char\<close>) returns \<^verbatim>\<open>False\<close> and leaves the canvas as it was.
\<close>

theorem rotation_recrop:
  "(char_map c = Some paths \<and> paths \<noteq> []
      \<and> files (paths ! (md_pick d mod length paths)) = Some img
      \<and> getbbox (binarize_adaptive img) = Some b
      \<and> getbbox (rotate pil (randint_val (- 3) 3 (md_angle d)) (crop b (binarize_adaptive img)))
          = None
    \<longrightarrow> get_char_mask pil files char_map c d = Inr (Some (crop b (binarize_adaptive img))))
   \<and> (index c \<noteq> []
      \<and> files (index c ! (pd_pick pd mod length (index c))) = Some img
      \<and> msk = (if random_unit (pd_dilate pd) < 2 / 10 then max_filter3 pil (binarize_fixed img)
                else binarize_fixed img)
      \<and> getbbox msk = Some b'
      \<and> getbbox (rotate pil (randint_val (- 6) 6 (pd_angle pd)) (crop b' msk)) = None
    \<longrightarrow> paste_single_char pil files index canvas c bbox pd = (False, canvas))"
proof (intro conjI impI)
  assume "char_map c = Some paths \<and> paths \<noteq> []
      \<and> files (paths ! (md_pick d mod length paths)) = Some img
      \<and> getbbox (binarize_adaptive img) = Some b
      \<and> getbbox (rotate pil (randint_val (- 3) 3 (md_angle d)) (crop b (binarize_adaptive img)))
          = None"
  then show "get_char_mask pil files char_map c d = Inr (Some (crop b (binarize_adaptive img)))"
    by (simp add: get_char_mask_def choice_def)
next
  assume a: "index c \<noteq> []
      \<and> files (index c ! (pd_pick pd mod length (index c))) = Some img
      \<and> msk = (if random_unit (pd_dilate pd) < 2 / 10 then max_filter3 pil (binarize_fixed img)
                else binarize_fixed img)
      \<and> getbbox msk = Some b'
      \<and> getbbox (rotate pil (randint_val (- 6) 6 (pd_angle pd)) (crop b' msk)) = None"
  then have "digit_mask pil img pd = None"
    by (auto simp: digit_mask_def Let_def)
  with a show "paste_single_char pil files index canvas c bbox pd = (False, canvas)"
    by (simp add: paste_single_char_def choice_def)
qed

theorem rotation_recrop_witness:
  "ex_index 65 = Some [''a.png'']
   \<and> ex_files ''a.png'' = Some [[255, 0], [255, 255]]
   \<and> getbbox (binarize_adaptive [[255, 0], [255, 255]]) = Some (1, 0, 2, 1)
   \<and> getbbox (rotate ex_blank_pil (randint_val (- 3) 3 (md_angle ex_mask_draws))
                (crop (1, 0, 2, 1) (binarize_adaptive [[255, 0], [255, 255]]))) = None
   \<and> get_char_mask ex_blank_pil ex_files ex_index 65 ex_mask_draws = Inr (Some [[255]])
   \<and> getbbox (binarize_fixed [[255, 0], [255, 255]]) = Some (1, 0, 2, 1)
   \<and> paste_single_char ex_blank_pil ex_files ex_digit_index [Paste 1 2 3 4] 65 (0, 0, 40, 40)
        ex_paste_draws = (False, [Paste 1 2 3 4])"
proof -
  have i: "ex_index 65 = Some [''a.png'']"
    by (simp add: ex_index_def)
  have f: "ex_files ''a.png'' = Some [[255, 0], [255, 255]]"
    by (simp add: ex_files_def)
  have b1: "getbbox (binarize_adaptive [[255, 0], [255, 255]]) = Some (1, 0, 2, 1)"
    and b2: "getbbox (binarize_fixed [[255, 0], [255, 255]]) = Some (1, 0, 2, 1)"
    and b3: "getbbox [[0]] = None"
    and c1: "crop (1, 0, 2, 1) (binarize_adaptive [[255, 0], [255, 255]]) = [[255]]"
    by code_simp+
  have r: "rotate ex_blank_pil angle m = [[0]]" for angle m
    by (simp add: ex_blank_pil_def)
  have u: "random_unit (pd_dilate ex_paste_draws) < 2 / 10"
    by (simp add: random_unit_def ex_paste_draws_def)
  note t = rotation_recrop
    [where char_map = ex_index and c = 65 and paths = "[''a.png'']" and files = ex_files
       and d = ex_mask_draws and img = "[[255, 0], [255, 255]]" and b = "(1, 0, 2, 1)"
       and pil = ex_blank_pil and index = ex_digit_index and pd = ex_paste_draws
       and msk = "binarize_fixed [[255, 0], [255, 255]]" and b' = "(1, 0, 2, 1)"
       and canvas = "[Paste 1 2 3 4]" and bbox = "(0, 0, 40, 40)"]
  from t i f b1 b2 b3 c1 r u show ?thesis
    by (simp add: ex_digit_index_def ex_blank_pil_def)
qed

section \<open>Slotted mode: start index and label\<close>

declare wavy_points.simps [simp del]

lemma length_TARGET_CHAR_SET: "length TARGET_CHAR_SET = 10" "length (tl TARGET_CHAR_SET) = 9"
  "TARGET_CHAR_SET \<noteq> []" "tl TARGET_CHAR_SET \<noteq> []"
  by (simp_all add: TARGET_CHAR_SET_def)

lemma choose_start_index_nine:
  "\<exists>k < 9. choose_start_index 9 v = Inr k"
proof -
  let ?cum = "accumulate 0 [1, 1, 1, 1, 2, 3, 4, 5, 5]"
  let ?k = "bisect ?cum (random_unit v * of_int (last ?cum)) 8"
  have "?k \<le> 8"
    unfolding bisect_def by (rule order_trans [OF length_filter_le]) simp
  moreover have "choose_start_index 9 v = Inr ([0..<9] ! ?k)"
    by (simp add: choose_start_index_def choices_def Let_def)
  ultimately show ?thesis by (intro exI [of _ ?k]) simp
qed

lemma choose_start_index_other: "n \<noteq> 9 \<Longrightarrow> choose_start_index n v = Inl ValueError"
  by (simp add: choose_start_index_def choices_def Let_def)

text \<open>Every slot is the start index for some draw.\<close>

lemma choose_start_index_onto:
  "choose_start_index 9 0 = Inr 0" "choose_start_index 9 (2 ^ 49) = Inr 1"
  "choose_start_index 9 (2 ^ 50) = Inr 2" "choose_start_index 9 (5 * 2 ^ 48) = Inr 3"
  "choose_start_index 9 (2 ^ 51) = Inr 4" "choose_start_index 9 (3 * 2 ^ 50) = Inr 5"
  "choose_start_index 9 (2 ^ 52) = Inr 6" "choose_start_index 9 (3 * 2 ^ 51) = Inr 7"
  "choose_start_index 9 (7 * 2 ^ 50) = Inr 8"
  by (simp_all add: choose_start_index_def choices_def bisect_def random_unit_def Let_def)

lemma fill_slots_label:
  assumes "i + length boxes \<le> length static_units"
  shows "\<exists>lines canvas'.
           fill_slots pil files char_map static_units n start_index d i (label_chars, line_bboxes, canvas) boxes
             = Inr (label_chars @ map (\<lambda>j. slot_char n start_index d j # static_units ! j)
                                      [i..<i + length boxes],
                    lines, canvas')"
  using assms
proof (induction boxes arbitrary: i label_chars line_bboxes canvas)
  case Nil
  then show ?case by simp
next
  case (Cons bbox rest)
  then have i: "i < length static_units" and r: "Suc i + length rest \<le> length static_units"
    by simp_all
  have u: "[i..<i + length (bbox # rest)] = i # [Suc i..<Suc i + length rest]"
    by (simp add: upt_rec)
  show ?case
  proof (cases "i < start_index")
    case True
    with i Cons.IH [OF r, of "label_chars @ [32 # static_units ! i]" "line_bboxes @ [bbox]" canvas]
    show ?thesis unfolding u by (auto simp: slot_char_def)
  next
    case False
    note nlt = this
    show ?thesis
    proof (cases "i = start_index")
      case True
      with i nlt Cons.IH [OF r, of "label_chars @ [slot_char n start_index d i # static_units ! i]" line_bboxes]
      show ?thesis unfolding u
        by (auto simp: slot_char_def choice_def length_TARGET_CHAR_SET Let_def)
    next
      case False
      with i nlt Cons.IH [OF r, of "label_chars @ [slot_char n start_index d i # static_units ! i]" line_bboxes]
      show ?thesis unfolding u
        by (auto simp: slot_char_def choice_def length_TARGET_CHAR_SET Let_def)
    qed
  qed
qed

lemma slot_char_props:
  "(slot_char n start_index d i = 32 \<longleftrightarrow> i < start_index)"
  "start_index \<le> i \<Longrightarrow> slot_char n start_index d i \<in> set TARGET_CHAR_SET"
  "int start_index \<noteq> int n - 1 \<Longrightarrow> slot_char n start_index d start_index \<noteq> 38646"
proof -
  have m: "TARGET_CHAR_SET ! (k mod 10) \<in> set TARGET_CHAR_SET" for k
    by (rule nth_mem) (simp add: length_TARGET_CHAR_SET)
  have t: "tl TARGET_CHAR_SET ! (k mod 9) \<in> set (tl TARGET_CHAR_SET)" for k
    by (rule nth_mem) (simp add: length_TARGET_CHAR_SET)
  have s: "32 \<notin> set TARGET_CHAR_SET" "38646 \<notin> set (tl TARGET_CHAR_SET)"
    "set (tl TARGET_CHAR_SET) \<subseteq> set TARGET_CHAR_SET"
    by (simp_all add: TARGET_CHAR_SET_def)
  show "(slot_char n start_index d i = 32 \<longleftrightarrow> i < start_index)"
    using m t s unfolding slot_char_def by (metis subsetD)
  show "start_index \<le> i \<Longrightarrow> slot_char n start_index d i \<in> set TARGET_CHAR_SET"
    using m t s unfolding slot_char_def by (auto simp del: set_empty)
  show "int start_index \<noteq> int n - 1 \<Longrightarrow> slot_char n start_index d start_index \<noteq> 38646"
    using t s unfolding slot_char_def by (metis less_irrefl)
qed

lemma fill_slots_short:
  assumes "length static_units < i + length boxes" and "i \<le> length static_units"
  shows "fill_slots pil files char_map static_units n start_index d i st boxes = Inl IndexError"
  using assms
proof (induction boxes arbitrary: i st)
  case Nil
  then show ?case by simp
next
  case (Cons bbox rest)
  obtain label_chars line_bboxes canvas where st: "st = (label_chars, line_bboxes, canvas)"
    by (cases st) auto
  show ?case
  proof (cases "length static_units \<le> i")
    case True
    then show ?thesis by (simp add: st)
  next
    case False
    with Cons.prems have "length static_units < Suc i + length rest"
      and "Suc i \<le> length static_units" by simp_all
    note ih = Cons.IH [OF this]
    from False ih show ?thesis
      by (auto simp: st choice_def length_TARGET_CHAR_SET Let_def)
  qed
qed

lemma generate_capital_number_image_SomeD:
  assumes "generate_capital_number_image pil files backgrounds char_map background_path
             target_bboxes static_units d = Inr (Some (img, label))"
  shows "\<exists>start_index label_chars line_bboxes canvas.
           choose_start_index (length target_bboxes) (pr_start d) = Inr start_index
           \<and> fill_slots pil files char_map static_units (length target_bboxes) start_index d 0
                ([], [], []) target_bboxes = Inr (label_chars, line_bboxes, canvas)
           \<and> label = concat label_chars"
  using assms
  by (auto simp: generate_capital_number_image_def Let_def
           split: option.splits sum.splits prod.splits if_splits)

text \<open>
  Claim C3. Whenever slotted generation produces a label with one-character unit
  annotations, the label is the concatenation of one two-character segment per slot in slot
  order; the first character of a segment is the blank marker (a space, code point 32)
  exactly for the slots before the chosen start index and a capital digit from the start
  index on; the digit at the start index is not zero (code point 38646) unless the start
  index is the last slot.
\<close>

theorem slotted_label_structure:
  assumes "generate_capital_number_image pil files backgrounds char_map background_path
             target_bboxes static_units d = Inr (Some (img, label))"
      and "\<forall>u \<in> set static_units. length u = 1"
  shows "\<exists>start_index segs.
           choose_start_index (length target_bboxes) (pr_start d) = Inr start_index
           \<and> start_index < length target_bboxes
           \<and> length segs = length target_bboxes
           \<and> label = concat segs
           \<and> (\<forall>i < length target_bboxes. \<exists>c.
                 segs ! i = [c, hd (static_units ! i)]
                 \<and> (c = 32 \<longleftrightarrow> i < start_index)
                 \<and> (start_index \<le> i \<longrightarrow> c \<in> set TARGET_CHAR_SET)
                 \<and> (i = start_index \<and> int i \<noteq> int (length target_bboxes) - 1 \<longrightarrow> c \<noteq> 38646))"
proof -
  let ?n = "length target_bboxes"
  from generate_capital_number_image_SomeD [OF assms(1)]
  obtain start_index label_chars line_bboxes canvas where
    st: "choose_start_index ?n (pr_start d) = Inr start_index"
    and fs: "fill_slots pil files char_map static_units ?n start_index d 0 ([], [], [])
               target_bboxes = Inr (label_chars, line_bboxes, canvas)"
    and lb: "label = concat label_chars"
    by blast
  from st have n9: "?n = 9"
    using choose_start_index_other [of ?n "pr_start d"] by auto
  with st have lt: "start_index < ?n"
    using choose_start_index_nine [of "pr_start d"] by auto
  have len: "?n \<le> length static_units"
    using fs fill_slots_short [of static_units 0 target_bboxes] by (cases "?n \<le> length static_units") auto
  let ?segs = "map (\<lambda>j. slot_char ?n start_index d j # static_units ! j) [0..<?n]"
  from fill_slots_label [of 0 target_bboxes static_units pil files char_map ?n start_index d "[]" "[]" "[]"] len fs
  have lc: "label_chars = ?segs"
    by auto
  have "\<exists>c. ?segs ! i = [c, hd (static_units ! i)]
            \<and> (c = 32 \<longleftrightarrow> i < start_index)
            \<and> (start_index \<le> i \<longrightarrow> c \<in> set TARGET_CHAR_SET)
            \<and> (i = start_index \<and> int i \<noteq> int ?n - 1 \<longrightarrow> c \<noteq> 38646)" if "i < ?n" for i
  proof -
    from that len have "static_units ! i \<in> set static_units" by simp
    with assms(2) have "length (static_units ! i) = 1" by blast
    then have "static_units ! i = [hd (static_units ! i)]"
      by (cases "static_units ! i") auto
    then have "?segs ! i = [slot_char ?n start_index d i, hd (static_units ! i)]"
      using that by simp
    then show ?thesis
      by (auto simp: slot_char_props)
  qed
  with st lt lc lb show ?thesis
    by (intro exI [of _ start_index] exI [of _ ?segs]) simp
qed

text \<open>Scenario B of the specification: the nine template slots with start index 4, every digit
  sample being \<open>a.png\<close>.\<close>

lemma length_DEFAULT_BBOXES: "length DEFAULT_BBOXES = 9"
  by (simp add: DEFAULT_BBOXES_def)

lemma crop_box_DEFAULT_BBOXES:
  "py_min (map box_0 DEFAULT_BBOXES) = Inr 141" "py_min (map box_1 DEFAULT_BBOXES) = Inr 490"
  "py_max (map box_3 DEFAULT_BBOXES) = Inr 534"
  by (simp_all add: DEFAULT_BBOXES_def py_min_def py_max_def box_0_def box_1_def box_3_def)

lemma ex_strike_points:
  "strike_points (take 4 DEFAULT_BBOXES) ex_price_draws
     = Inr [(144, 502), (174, 498), (204, 498), (234, 498), (264, 498), (294, 498), (324, 498),
            (341, 500)]"
  by (simp add: strike_points_def DEFAULT_BBOXES_def ex_price_draws_def py_min_def py_max_def
        box_0_def box_1_def box_2_def box_3_def randint_def randint_val_def wavy_points.simps
        Let_def)

lemma ex_paste:
  assumes "box_2 bbox - box_0 bbox = 36" and "box_3 bbox - box_1 bbox = 42"
  shows "paste_single_char ex_pil ex_files ex_digit_index canvas c bbox ex_paste_draws
           = (True, canvas @ [Paste (box_0 bbox) (box_1 bbox + 2) 26 26])"
proof -
  have b: "getbbox (binarize_fixed [[255, 0], [255, 255]]) = Some (1, 0, 2, 1)"
    "crop (1, 0, 2, 1) (binarize_fixed [[255, 0], [255, 255]]) = [[255]]"
    "getbbox [[255]] = Some (0, 0, 1, 1)" "crop (0, 0, 1, 1) [[255]] = [[255]]"
    by code_simp+
  have dm: "digit_mask ex_pil [[255, 0], [255, 255]] ex_paste_draws = Some [[255]]"
    by (simp add: digit_mask_def Let_def b [simplified] ex_pil_def ex_paste_draws_def
          random_unit_def randint_val_def)
  have ss: "slot_size bbox (1, 1) ex_paste_draws = Some (26, 26)"
    by (simp add: slot_size_def Let_def assms uniform_def random_unit_def ex_paste_draws_def
          py_int_def resize_def)
  have sp: "slot_position bbox (26, 26) ex_paste_draws = Some (box_0 bbox, box_1 bbox + 2)"
    by (simp add: slot_position_def Let_def assms randint_def randint_val_def
          ex_paste_draws_def)
  show ?thesis
    by (simp add: paste_single_char_def ex_digit_index_def choice_def ex_files_def dm ss sp
          mask_size_def img_width_def img_height_def)
qed

lemma ex_fill_slots:
  "fill_slots ex_pil ex_files ex_digit_index STATIC_UNITS 9 4 ex_price_draws 0 ([], [], [])
     DEFAULT_BBOXES
   = Inr ([[32, 20740], [32, 20191], [32, 20336], [32, 25342], [20237, 33836], [20237, 20191],
           [38520, 20336], [26578, 25342], [25420, 20803]],
          take 4 DEFAULT_BBOXES,
          [Paste 366 494 26 26, Paste 424 493 26 26, Paste 480 494 26 26, Paste 536 494 26 26,
           Paste 591 492 26 26])"
proof -
  have pd: "pr_paste ex_price_draws i = ex_paste_draws" "pr_digit ex_price_draws i = i" for i
    by (simp_all add: ex_price_draws_def)
  show ?thesis
    by (simp add: DEFAULT_BBOXES_def STATIC_UNITS_def TARGET_CHAR_SET_def choice_def pd ex_paste
          box_0_def box_1_def box_2_def box_3_def)
qed

lemma ex_slotted_run:
  "generate_capital_number_image ex_pil ex_files ex_backgrounds ex_digit_index ''bg.png''
     DEFAULT_BBOXES STATIC_UNITS ex_price_draws
   = Inr (Some (\<lparr>out_box = (136, 485, 650, 539),
                  out_ops = [Paste 366 494 26 26, Paste 424 493 26 26, Paste 480 494 26 26,
                             Paste 536 494 26 26, Paste 591 492 26 26,
                             Line [(144, 502), (174, 498), (204, 498), (234, 498), (264, 498),
                                   (294, 498), (324, 498), (341, 500)] 2]\<rparr>,
                [32, 20740, 32, 20191, 32, 20336, 32, 25342, 20237, 33836, 20237, 20191,
                 38520, 20336, 26578, 25342, 25420, 20803]))"
proof -
  have pr: "pr_start ex_price_draws = 2 ^ 51" "pr_strike ex_price_draws = 0"
    "pr_line_width ex_price_draws = 0"
    by (simp_all add: ex_price_draws_def)
  have ne: "take 4 DEFAULT_BBOXES \<noteq> []"
    by (simp add: DEFAULT_BBOXES_def)
  show ?thesis
    by (simp add: generate_capital_number_image_def ex_backgrounds_def length_DEFAULT_BBOXES
          pr choose_start_index_onto(5) [simplified] ex_fill_slots ne ex_strike_points
          crop_box_DEFAULT_BBOXES
          random_unit_def randint_val_def box_0_def box_1_def box_2_def box_3_def
          del: take_eq_Nil)
qed

theorem slotted_label_structure_witness:
  "generate_capital_number_image ex_pil ex_files ex_backgrounds ex_digit_index ''bg.png''
     DEFAULT_BBOXES STATIC_UNITS ex_price_draws
   = Inr (Some (\<lparr>out_box = (136, 485, 650, 539),
                  out_ops = [Paste 366 494 26 26, Paste 424 493 26 26, Paste 480 494 26 26,
                             Paste 536 494 26 26, Paste 591 492 26 26,
                             Line [(144, 502), (174, 498), (204, 498), (234, 498), (264, 498),
                                   (294, 498), (324, 498), (341, 500)] 2]\<rparr>,
                [32, 20740, 32, 20191, 32, 20336, 32, 25342, 20237, 33836, 20237, 20191,
                 38520, 20336, 26578, 25342, 25420, 20803]))
   \<and> list_all (\<lambda>u. length u = 1) STATIC_UNITS
   \<and> (\<exists>segs. length segs = 9
         \<and> [32, 20740, 32, 20191, 32, 20336, 32, 25342, 20237, 33836, 20237, 20191,
             38520, 20336, 26578, 25342, 25420, 20803] = concat segs
         \<and> (\<forall>i < 9. \<exists>c. segs ! i = [c, hd (STATIC_UNITS ! i)] \<and> (c = 32 \<longleftrightarrow> i < 4)))"
proof -
  have u: "\<forall>u \<in> set STATIC_UNITS. length u = 1"
    by (simp add: STATIC_UNITS_def)
  from slotted_label_structure [OF ex_slotted_run u]
  obtain start_index segs where
    "choose_start_index (length DEFAULT_BBOXES) (pr_start ex_price_draws) = Inr start_index"
    and *: "length segs = length DEFAULT_BBOXES"
      "[32, 20740, 32, 20191, 32, 20336, 32, 25342, 20237, 33836, 20237, 20191,
        38520, 20336, 26578, 25342, 25420, 20803] = concat segs"
      "\<forall>i < length DEFAULT_BBOXES. \<exists>c. segs ! i = [c, hd (STATIC_UNITS ! i)]
         \<and> (c = 32 \<longleftrightarrow> i < start_index)"
    by blast
  then have "start_index = 4"
    by (simp add: length_DEFAULT_BBOXES ex_price_draws_def choose_start_index_onto(5) [simplified])
  with * have "\<exists>segs. length segs = 9
         \<and> [32, 20740, 32, 20191, 32, 20336, 32, 25342, 20237, 33836, 20237, 20191,
             38520, 20336, 26578, 25342, 25420, 20803] = concat segs
         \<and> (\<forall>i < 9. \<exists>c. segs ! i = [c, hd (STATIC_UNITS ! i)] \<and> (c = 32 \<longleftrightarrow> i < 4))"
    unfolding length_DEFAULT_BBOXES by blast
  with ex_slotted_run u show ?thesis
    by (simp add: list_all_iff)
qed

text \<open>
  Claim C10. The weight list of the start-index choice has nine entries: for a slot list of
  any other length the choice raises \<^verbatim>\<open>ValueError\<close>, and so does the generator once the
  background has loaded (it does not return the no-result pair); for nine slots the choice
  returns an index below 9.
\<close>

theorem start_choice_needs_nine_slots:
  "(length target_bboxes \<noteq> 9
      \<longrightarrow> choose_start_index (length target_bboxes) v = Inl ValueError
          \<and> (backgrounds background_path = Some canvas_size
               \<longrightarrow> generate_capital_number_image pil files backgrounds char_map background_path
                     target_bboxes static_units d = Inl ValueError))
   \<and> (length target_bboxes = 9
      \<longrightarrow> (\<exists>k < 9. choose_start_index (length target_bboxes) v = Inr k))"
  using choose_start_index_other [of "length target_bboxes"] choose_start_index_nine [of v]
  by (auto simp: generate_capital_number_image_def)

theorem start_choice_needs_nine_slots_witness:
  "length [(0, 0, 10, 10) :: box] \<noteq> 9
   \<and> choose_start_index (length [(0, 0, 10, 10) :: box]) 0 = Inl ValueError
   \<and> ex_backgrounds ''bg.png'' = Some (700, 600)
   \<and> generate_capital_number_image ex_pil ex_files ex_backgrounds ex_digit_index ''bg.png''
        [(0, 0, 10, 10)] STATIC_UNITS ex_price_draws = Inl ValueError
   \<and> length DEFAULT_BBOXES = 9
   \<and> (\<exists>k < 9. choose_start_index (length DEFAULT_BBOXES) 0 = Inr k)"
  using start_choice_needs_nine_slots
          [of "[(0, 0, 10, 10)]" 0 ex_backgrounds "''bg.png''" "(700, 600)" ex_pil ex_files
              ex_digit_index STATIC_UNITS ex_price_draws]
        start_choice_needs_nine_slots [of DEFAULT_BBOXES 0]
  by (simp add: ex_backgrounds_def length_DEFAULT_BBOXES)

section \<open>Slotted mode: strikethrough\<close>

lemma randint_val_bounds:
  assumes "a \<le> b"
  shows "a \<le> randint_val a b v" and "randint_val a b v \<le> b"
proof -
  from assms have pos: "0 < b - a + 1"
    by simp
  have "0 \<le> int v mod (b - a + 1)" and "int v mod (b - a + 1) < b - a + 1"
    using pos_mod_sign [OF pos] pos_mod_bound [OF pos] by blast+
  then show "a \<le> randint_val a b v" and "randint_val a b v \<le> b"
    unfolding randint_val_def by linarith+
qed

lemma wavy_points_sorted:
  "x \<le> x_end \<Longrightarrow>
     sorted (x # map fst (wavy_points step tremor x_end base_y k x))
     \<and> (\<forall>p \<in> set (wavy_points step tremor x_end base_y k x). fst p \<le> x_end)"
proof (induction step tremor x_end base_y k x rule: wavy_points.induct)
  case (1 step tremor x_end base_y k x)
  show ?case
  proof (cases "x < x_end")
    case False
    then show ?thesis by (simp add: wavy_points.simps [of _ _ x_end _ _ x])
  next
    case True
    define x' where "x' = min (x + randint_val 30 70 (step k)) x_end"
    have ge: "30 \<le> randint_val 30 70 (step k)"
      by (rule randint_val_bounds) simp
    with True have xx: "x \<le> x'" "x' \<le> x_end"
      by (simp_all add: x'_def)
    from "1.IH" [OF True refl x'_def [symmetric, THEN sym] refl] xx
    have ih: "sorted (x' # map fst (wavy_points step tremor x_end base_y (Suc k) x'))
       \<and> (\<forall>p \<in> set (wavy_points step tremor x_end base_y (Suc k) x'). fst p \<le> x_end)"
      by (simp add: x'_def)
    have unf: "wavy_points step tremor x_end base_y k x
        = (x', base_y + randint_val (- 4) 4 (tremor k))
          # wavy_points step tremor x_end base_y (Suc k) x'"
      using True by (simp add: wavy_points.simps [of _ _ x_end _ _ x] x'_def Let_def)
    from ih xx show ?thesis
      unfolding unf by auto
  qed
qed

lemma wavy_points_empty_iff:
  "wavy_points step tremor x_end base_y k x = [] \<longleftrightarrow> \<not> x < x_end"
  by (simp add: wavy_points.simps [of _ _ x_end _ _ x] Let_def)

lemma py_min_Min: "xs \<noteq> [] \<Longrightarrow> py_min xs = Inr (Min (set xs))"
proof (cases xs)
  case (Cons a list)
  then show ?thesis
    using Min.set_eq_fold [of a list] by (simp add: py_min_def)
qed simp

lemma py_max_Max: "xs \<noteq> [] \<Longrightarrow> py_max xs = Inr (Max (set xs))"
proof (cases xs)
  case (Cons a list)
  then show ?thesis
    using Max.set_eq_fold [of a list] by (simp add: py_max_def)
qed simp

text \<open>The shape of the point list that \<open>strike_points\<close> returns, when it has at least two
  points.\<close>

lemma strike_points_shape:
  assumes "strike_points line_bboxes d = Inr points" and "2 \<le> length points"
  shows "\<exists>inset_start inset_end.
           3 \<le> inset_start \<and> inset_start \<le> 10 \<and> 3 \<le> inset_end \<and> inset_end \<le> 10
           \<and> fst (hd points) = Min (set (map box_0 line_bboxes)) + inset_start
           \<and> fst (last points) = Max (set (map box_2 line_bboxes)) - inset_end
           \<and> sorted (map fst points)"
proof -
  from assms(1) have ne: "line_bboxes \<noteq> []"
    by (auto simp: strike_points_def)
  then obtain ref_bbox rest where lb: "line_bboxes = ref_bbox # rest"
    by (cases line_bboxes) auto
  define left where "left = Min (set (map box_0 line_bboxes))"
  define right where "right = Max (set (map box_2 line_bboxes))"
  define x_start where "x_start = left + randint_val 3 10 (pr_inset_start d)"
  define x_end where "x_end = right - randint_val 3 10 (pr_inset_end d)"
  have mn: "py_min (map box_0 line_bboxes) = Inr left"
    and mx: "py_max (map box_2 line_bboxes) = Inr right"
    using ne by (simp_all add: py_min_Min py_max_Max left_def right_def)
  from assms(1) obtain base_y y_last where
    pts: "points = ((x_start, base_y) # wavy_points (pr_step d) (pr_tremor d) x_end base_y 0 x_start)
                     [length (wavy_points (pr_step d) (pr_tremor d) x_end base_y 0 x_start)
                        := (x_end, y_last)]"
    by (auto simp: strike_points_def lb mn [unfolded lb, simplified] mx [unfolded lb, simplified]
                   Let_def x_start_def x_end_def
             simp del: list_update.simps split: sum.splits)
  define w where "w = wavy_points (pr_step d) (pr_tremor d) x_end base_y 0 x_start"
  from pts have pts': "points = ((x_start, base_y) # w)[length w := (x_end, y_last)]"
    by (simp add: w_def)
  with assms(2) have wne: "w \<noteq> []"
    by auto
  then have lt: "x_start < x_end"
    using wavy_points_empty_iff [of "pr_step d" "pr_tremor d" x_end base_y 0 x_start]
    by (simp add: w_def)
  from wne obtain ws p where w: "w = ws @ [p]"
    by (metis rev_exhaust)
  have points_eq: "points = (x_start, base_y) # ws @ [(x_end, y_last)]"
    by (simp add: pts' w list_update_append)
  from wavy_points_sorted [of x_start x_end "pr_step d" "pr_tremor d" base_y 0] lt
  have s: "sorted (x_start # map fst w)" and b: "\<forall>p \<in> set w. fst p \<le> x_end"
    by (simp_all add: w_def)
  have "sorted (map fst points)"
    using s b lt unfolding points_eq w by (auto simp: sorted_append)
  moreover have "fst (hd points) = x_start" "fst (last points) = x_end"
    by (simp_all add: points_eq)
  moreover have "3 \<le> randint_val 3 10 (pr_inset_start d)" "randint_val 3 10 (pr_inset_start d) \<le> 10"
    "3 \<le> randint_val 3 10 (pr_inset_end d)" "randint_val 3 10 (pr_inset_end d) \<le> 10"
    by (simp_all add: randint_val_bounds)
  ultimately show ?thesis
    unfolding x_start_def x_end_def left_def right_def by blast
qed


lemma paste_single_char_canvas:
  "snd (paste_single_char pil files char_map canvas c bbox d) = canvas
   \<or> (\<exists>x y w h. snd (paste_single_char pil files char_map canvas c bbox d)
                   = canvas @ [Paste x y w h])"
  by (auto simp: paste_single_char_def split: sum.splits option.splits)

lemma fill_slots_lines:
  assumes "fill_slots pil files char_map static_units n start_index d i
             (label_chars, line_bboxes, canvas) boxes = Inr (label_chars', line_bboxes', canvas')"
  shows "line_bboxes' = line_bboxes @ take (start_index - i) boxes
       \<and> (\<forall>points w. Line points w \<in> set canvas' \<longrightarrow> Line points w \<in> set canvas)"
  using assms
proof (induction boxes arbitrary: i label_chars line_bboxes canvas)
  case Nil
  then show ?case by simp
next
  case (Cons bbox rest)
  from Cons.prems have len: "i < length static_units"
    by (auto split: if_splits)
  show ?case
  proof (cases "i < start_index")
    case True
    with Cons.prems len have
      "fill_slots pil files char_map static_units n start_index d (Suc i)
         (label_chars @ [32 # static_units ! i], line_bboxes @ [bbox], canvas) rest
       = Inr (label_chars', line_bboxes', canvas')"
      by simp
    from Cons.IH [OF this] True show ?thesis
      by (simp add: take_Cons' Suc_diff_Suc)
  next
    case False
    then obtain ch where
      r: "fill_slots pil files char_map static_units n start_index d (Suc i)
            (label_chars @ [ch # static_units ! i], line_bboxes,
             snd (paste_single_char pil files char_map canvas ch bbox (pr_paste d i))) rest
          = Inr (label_chars', line_bboxes', canvas')"
      using Cons.prems len by (auto simp: Let_def split: if_splits sum.splits)
    have "start_index - i = 0" "start_index - Suc i = 0"
      using False by simp_all
    with Cons.IH [OF r] paste_single_char_canvas [of pil files char_map canvas ch bbox "pr_paste d i"]
    show ?thesis
      by auto
  qed
qed

lemma generate_capital_number_image_ops:
  assumes "generate_capital_number_image pil files backgrounds char_map background_path
             target_bboxes static_units d = Inr (Some (img, label))"
  shows "\<exists>start_index label_chars line_bboxes canvas.
           choose_start_index (length target_bboxes) (pr_start d) = Inr start_index
           \<and> fill_slots pil files char_map static_units (length target_bboxes) start_index d 0
                ([], [], []) target_bboxes = Inr (label_chars, line_bboxes, canvas)
           \<and> (out_ops img = canvas
                \<or> (\<exists>points. strike_points line_bboxes d = Inr points
                      \<and> out_ops img = canvas @ [Line points (randint_val 2 4 (pr_line_width d))]))"
  using assms
  by (auto simp: generate_capital_number_image_def Let_def
           split: option.splits sum.splits prod.splits if_splits)

text \<open>
  Claim C9. Whenever slotted generation draws the strikethrough as a polyline (the image
  has a line whose point list has at least two points, so that there is a segment to
  draw), the blank run is the slots before the chosen start index, the first point's x is
  the left edge of the run plus an inset between 3 and 10, the last point's x is the right
  edge of the run minus an inset between 3 and 10, and the x coordinates of the points
  never decrease.
\<close>

theorem strikethrough_polyline_shape:
  assumes "generate_capital_number_image pil files backgrounds char_map background_path
             target_bboxes static_units d = Inr (Some (img, label))"
      and "Line points w \<in> set (out_ops img)" and "2 \<le> length points"
  shows "\<exists>start_index inset_start inset_end.
           choose_start_index (length target_bboxes) (pr_start d) = Inr start_index
           \<and> 3 \<le> inset_start \<and> inset_start \<le> 10 \<and> 3 \<le> inset_end \<and> inset_end \<le> 10
           \<and> fst (hd points)
               = Min (set (map box_0 (take start_index target_bboxes))) + inset_start
           \<and> fst (last points)
               = Max (set (map box_2 (take start_index target_bboxes))) - inset_end
           \<and> sorted (map fst points)"
proof -
  from generate_capital_number_image_ops [OF assms(1)]
  obtain start_index label_chars line_bboxes canvas where
    st: "choose_start_index (length target_bboxes) (pr_start d) = Inr start_index"
    and fs: "fill_slots pil files char_map static_units (length target_bboxes) start_index d 0
               ([], [], []) target_bboxes = Inr (label_chars, line_bboxes, canvas)"
    and ops: "out_ops img = canvas
                \<or> (\<exists>points. strike_points line_bboxes d = Inr points
                      \<and> out_ops img = canvas @ [Line points (randint_val 2 4 (pr_line_width d))])"
    by blast
  from fill_slots_lines [OF fs]
  have lb: "line_bboxes = take start_index target_bboxes"
    and nl: "Line points w \<notin> set canvas"
    by auto
  from ops assms(2) nl have "strike_points line_bboxes d = Inr points"
    by auto
  from strike_points_shape [OF this assms(3)] st show ?thesis
    unfolding lb by blast
qed

theorem strikethrough_polyline_shape_witness:
  "generate_capital_number_image ex_pil ex_files ex_backgrounds ex_digit_index ''bg.png''
     DEFAULT_BBOXES STATIC_UNITS ex_price_draws
   = Inr (Some (\<lparr>out_box = (136, 485, 650, 539),
                  out_ops = [Paste 366 494 26 26, Paste 424 493 26 26, Paste 480 494 26 26,
                             Paste 536 494 26 26, Paste 591 492 26 26,
                             Line [(144, 502), (174, 498), (204, 498), (234, 498), (264, 498),
                                   (294, 498), (324, 498), (341, 500)] 2]\<rparr>,
                [32, 20740, 32, 20191, 32, 20336, 32, 25342, 20237, 33836, 20237, 20191,
                 38520, 20336, 26578, 25342, 25420, 20803]))
   \<and> (2::nat) \<le> length [(144::int, 502::int), (174, 498), (204, 498), (234, 498), (264, 498),
                          (294, 498), (324, 498), (341, 500)]
   \<and> choose_start_index (length DEFAULT_BBOXES) (pr_start ex_price_draws) = Inr 4
   \<and> Min (set (map box_0 (take 4 DEFAULT_BBOXES))) = 141
   \<and> Max (set (map box_2 (take 4 DEFAULT_BBOXES))) = 344
   \<and> sorted (map fst [(144::int, 502::int), (174, 498), (204, 498), (234, 498), (264, 498),
                       (294, 498), (324, 498), (341, 500)])"
proof -
  let ?points = "[(144::int, 502::int), (174, 498), (204, 498), (234, 498), (264, 498),
                  (294, 498), (324, 498), (341, 500)]"
  let ?img = "\<lparr>out_box = (136, 485, 650, 539),
                out_ops = [Paste 366 494 26 26, Paste 424 493 26 26, Paste 480 494 26 26,
                           Paste 536 494 26 26, Paste 591 492 26 26, Line ?points 2]\<rparr>"
  have m: "Line ?points 2 \<in> set (out_ops ?img)"
    by simp
  have l: "(2::nat) \<le> length ?points"
    by simp
  have e: "Min (set (map box_0 (take 4 DEFAULT_BBOXES))) = 141"
    "Max (set (map box_2 (take 4 DEFAULT_BBOXES))) = 344"
    by (simp_all add: DEFAULT_BBOXES_def box_0_def box_2_def)
  have c: "choose_start_index (length DEFAULT_BBOXES) (pr_start ex_price_draws) = Inr 4"
    by (simp add: length_DEFAULT_BBOXES ex_price_draws_def
          choose_start_index_onto(5) [simplified])
  from strikethrough_polyline_shape [OF ex_slotted_run m l]
  have "sorted (map fst ?points)"
    by blast
  with ex_slotted_run l c e show ?thesis
    by blast
qed

section \<open>Missing samples\<close>

text \<open>Flowing mode returns the no-result pair when a character of the label is not in the
  index, and when the extraction of any mask returns \<^verbatim>\<open>None\<close>.\<close>

lemma flowing_missing_sample_no_result:
  assumes "c \<in> set company_name" and "char_map c = None"
  shows "generate_synthetic_image pil files backgrounds char_map background_path
           reference_field_bbox company_name d = Inr None"
  using assms by (auto simp: generate_synthetic_image_def)

lemma flowing_failed_extraction_no_result:
  assumes "get_masks pil files char_map (cd_mask d) 0 company_name = Inr None"
  shows "generate_synthetic_image pil files backgrounds char_map background_path
           reference_field_bbox company_name d = Inr None"
  using assms by (simp add: generate_synthetic_image_def)

lemma paste_zero_fails:
  "paste_single_char pil files ex_no_zero_index canvas 38646 bbox d = (False, canvas)"
  by (simp add: paste_single_char_def ex_no_zero_index_def)

lemma paste_one_succeeds:
  "paste_single_char ex_pil ex_files ex_no_zero_index [] 22777 (141, 493, 182, 532) ex_paste_draws
     = (True, [Paste 143 495 24 24])"
proof -
  have b: "getbbox (binarize_fixed [[255, 0], [255, 255]]) = Some (1, 0, 2, 1)"
    "crop (1, 0, 2, 1) (binarize_fixed [[255, 0], [255, 255]]) = [[255]]"
    "getbbox [[255]] = Some (0, 0, 1, 1)" "crop (0, 0, 1, 1) [[255]] = [[255]]"
    by code_simp+
  have dm: "digit_mask ex_pil [[255, 0], [255, 255]] ex_paste_draws = Some [[255]]"
    by (simp add: digit_mask_def Let_def b [simplified] ex_pil_def ex_paste_draws_def
          random_unit_def randint_val_def)
  have ss: "slot_size (141, 493, 182, 532) (1, 1) ex_paste_draws = Some (24, 24)"
    by (simp add: slot_size_def Let_def uniform_def random_unit_def ex_paste_draws_def
          py_int_def resize_def box_0_def box_1_def box_2_def box_3_def)
  have sp: "slot_position (141, 493, 182, 532) (24, 24) ex_paste_draws = Some (143, 495)"
    by (simp add: slot_position_def Let_def randint_def randint_val_def ex_paste_draws_def
          box_0_def box_1_def box_2_def box_3_def)
  show ?thesis
    by (simp add: paste_single_char_def ex_no_zero_index_def choice_def ex_files_def dm ss sp
          mask_size_def img_width_def img_height_def)
qed

text \<open>
  Claim C1 fails in slotted mode. The corpus has no sample of the capital zero. On the nine
  template slots, with start index 0, the digit one drawn at the start index and zero drawn
  in the eight later slots, \<^verbatim>\<open>_paste_single_char\<close> returns \<^verbatim>\<open>False\<close> for every zero; the
  generator drops that result and returns an image on which only the first glyph was
  pasted, together with a label that names nine digits.
\<close>

theorem slotted_missing_samples_still_labelled:
  "generate_capital_number_image ex_pil ex_files ex_backgrounds ex_no_zero_index ''bg.png''
     DEFAULT_BBOXES STATIC_UNITS ex_zero_draws
   = Inr (Some (\<lparr>out_box = (136, 485, 650, 539), out_ops = [Paste 143 495 24 24]\<rparr>,
                [22777, 20740, 38646, 20191, 38646, 20336, 38646, 25342, 38646, 33836,
                 38646, 20191, 38646, 20336, 38646, 25342, 38646, 20803]))"
proof -
  have pd: "pr_paste ex_zero_draws i = ex_paste_draws" "pr_digit ex_zero_draws i = 0" for i
    by (simp_all add: ex_zero_draws_def)
  have "fill_slots ex_pil ex_files ex_no_zero_index STATIC_UNITS 9 0 ex_zero_draws 0
          ([], [], []) DEFAULT_BBOXES
        = Inr ([[22777, 20740], [38646, 20191], [38646, 20336], [38646, 25342], [38646, 33836],
                [38646, 20191], [38646, 20336], [38646, 25342], [38646, 20803]], [],
               [Paste 143 495 24 24])"
    by (simp add: DEFAULT_BBOXES_def STATIC_UNITS_def TARGET_CHAR_SET_def choice_def pd
          paste_zero_fails paste_one_succeeds)
  moreover have "pr_start ex_zero_draws = 0"
    by (simp add: ex_zero_draws_def)
  ultimately show ?thesis
    by (simp add: generate_capital_number_image_def ex_backgrounds_def length_DEFAULT_BBOXES
          choose_start_index_onto(1) crop_box_DEFAULT_BBOXES box_0_def box_1_def box_2_def box_3_def)
qed

section \<open>Flowing mode: normalization\<close>










section \<open>Flowing mode: layout\<close>

text \<open>The sizes that normalization hands to the layout are at least 1 by 1, since
  \<^verbatim>\<open>resize\<close> accepts nothing smaller.\<close>

lemma normalize_one_positive:
  "normalize_one max_h m = Inr (Some n) \<Longrightarrow> 1 \<le> fst n \<and> 1 \<le> snd n"
  by (cases m) (auto simp: normalize_one_def Let_def resize_def split: if_splits)

lemma normalize_masks_positive:
  "normalize_masks max_h ms = Inr ns \<Longrightarrow> \<forall>n \<in> set ns. 1 \<le> fst n \<and> 1 \<le> snd n"
proof (induction ms arbitrary: ns)
  case Nil
  then show ?case
    by simp
next
  case (Cons m ms)
  from Cons.prems obtain r rest where
    r: "normalize_one max_h m = Inr r" and rest: "normalize_masks max_h ms = Inr rest"
    and ns: "ns = (case r of None \<Rightarrow> rest | Some n \<Rightarrow> n # rest)"
    by (auto split: sum.splits)
  from Cons.IH [OF rest] have "\<forall>n \<in> set rest. 1 \<le> fst n \<and> 1 \<le> snd n" .
  with r ns show ?case
    by (cases r) (auto dest: normalize_one_positive)
qed

lemma py_int_le: "0 \<le> q \<Longrightarrow> of_int (py_int q) \<le> q"
  by (simp add: py_int_def)

lemma scale_masks_positive:
  assumes "scale_masks s ms = Inr scaled" and "scaled \<noteq> []" and "\<forall>m \<in> set ms. 1 \<le> fst m"
  shows "0 < s"
  using assms
proof (induction ms arbitrary: scaled)
  case Nil
  then show ?case by simp
next
  case (Cons m ms)
  show ?case
  proof (rule ccontr)
    assume "\<not> 0 < s"
    then have s: "s \<le> 0" by simp
    have w: "1 \<le> fst m" using Cons.prems(3) by simp
    then have "of_int (fst m) * s \<le> 0"
      using s by (simp add: mult_nonneg_nonpos)
    then have nw: "py_int (of_int (fst m) * s) \<le> 0"
      by (auto simp: py_int_def ceiling_le_iff order.antisym)
    have rest: "\<forall>m \<in> set ms. 1 \<le> fst m"
      using Cons.prems(3) by (metis list.set_intros(2))
    from Cons.prems(1,2) nw Cons.IH [OF _ _ rest] \<open>\<not> 0 < s\<close> show False
      by (auto simp: Let_def resize_def split: if_splits sum.splits)
  qed
qed

lemma scale_masks_width_sum:
  assumes "scale_masks s ms = Inr scaled" and "0 \<le> s" and "\<forall>m \<in> set ms. 1 \<le> fst m"
  shows "of_int (sum_list (map fst scaled)) \<le> s * of_int (sum_list (map fst ms))"
  using assms
proof (induction ms arbitrary: scaled)
  case Nil
  then show ?case by simp
next
  case (Cons m ms)
  have w: "0 \<le> of_int (fst m) * s"
    using Cons.prems(2,3) by simp
  have rest: "\<forall>m \<in> set ms. 1 \<le> fst m"
    using Cons.prems(3) by (metis list.set_intros(2))
  show ?case
  proof (cases "py_int (of_int (fst m) * s) = 0 \<or> py_int (of_int (snd m) * s) = 0")
    case True
    with Cons.prems(1) have "scale_masks s ms = Inr scaled"
      by (auto simp: Let_def)
    from Cons.IH [OF this Cons.prems(2) rest] w show ?thesis
      by (simp add: algebra_simps)
  next
    case False
    with Cons.prems(1) obtain rest_scaled where
      r: "scale_masks s ms = Inr rest_scaled"
      and sc: "scaled = (py_int (of_int (fst m) * s), py_int (of_int (snd m) * s)) # rest_scaled"
      by (auto simp: Let_def resize_def split: if_splits sum.splits)
    from Cons.IH [OF r Cons.prems(2) rest] py_int_le [OF w] show ?thesis
      by (simp add: sc algebra_simps)
  qed
qed

lemma spacing_sum:
  assumes "0 \<le> s" and "\<forall>x \<in> set sp. 0 \<le> x"
  shows "of_int (sum_list (map (\<lambda>x. py_int (of_int x * s)) sp)) \<le> s * of_int (sum_list sp)"
  using assms(2)
proof (induction sp)
  case Nil
  then show ?case by simp
next
  case (Cons x sp)
  then have "0 \<le> of_int x * s" using assms(1) by simp
  from py_int_le [OF this] Cons show ?case
    by (simp add: algebra_simps)
qed

text \<open>
  Claim C4. Whenever the flowing layout of a batch of normalized glyphs (every width at
  least 1) succeeds, the total placed width, that is the sum of the scaled glyph widths
  plus the scaled spacings, is at most \<open>fieldWidth - 10\<close>; the scale is the candidate scale,
  replaced by \<open>(fieldWidth - 10) / totalWidth\<close> when \<open>totalWidth \<times> scale\<close> exceeds
  \<open>fieldWidth - 10\<close>, and then clamped to at most 2.5.
\<close>

theorem flowing_width_fits:
  assumes "plan_layout reference_field_bbox max_h masks d = Inr (Some l)"
      and "\<forall>m \<in> set masks. 1 \<le> fst m"
  shows "total_w_scaled l \<le> box_2 reference_field_bbox - box_0 reference_field_bbox - 10
       \<and> lay_scale l =
           (let field_width = box_2 reference_field_bbox - box_0 reference_field_bbox;
                field_height = box_3 reference_field_bbox - box_1 reference_field_bbox;
                total_width = sum_list (map fst masks) + sum_list (lay_spacings l);
                scale = of_int (field_height - 6) * uniform (3 / 4) (9 / 10) (cd_height d)
                          / of_int max_h in
            min (5 / 2)
              (if of_int total_width * scale > of_int (field_width - 10)
               then of_int (field_width - 10) / of_int total_width else scale))"
proof -
  define spacings where
    "spacings = map (\<lambda>i. randint_val 2 10 (cd_spacing d i)) [0..<length masks - 1]"
  define total where "total = sum_list (map fst masks) + sum_list spacings"
  define fw where "fw = box_2 reference_field_bbox - box_0 reference_field_bbox"
  define sf where "sf = of_int (box_3 reference_field_bbox - box_1 reference_field_bbox - 6)
                     * uniform (3 / 4) (9 / 10) (cd_height d) / of_int max_h"
  define s1 where "s1 = (if of_int total * sf > of_int (fw - 10)
                         then of_int (fw - 10) / of_int total else sf)"
  define s where "s = min (5 / 2) s1"
  from assms(1) have sc: "scale_masks s masks = Inr (lay_scaled l)" and ne: "lay_scaled l \<noteq> []"
    and sp: "lay_spacings l = spacings" and ls: "lay_scale l = s"
    unfolding plan_layout_def spacings_def [symmetric] Let_def total_def [symmetric]
      fw_def [symmetric] sf_def [symmetric]
    by (auto simp: s_def s1_def sf_def fw_def total_def split: if_splits sum.splits)
  have spos: "0 < s"
    using scale_masks_positive [OF sc ne assms(2)] .
  have sp0: "\<forall>x \<in> set spacings. 0 \<le> x"
  proof
    fix x assume "x \<in> set spacings"
    then obtain i where "x = randint_val 2 10 (cd_spacing d i)"
      by (auto simp: spacings_def)
    moreover have "2 \<le> randint_val 2 10 (cd_spacing d i)"
      by (rule randint_val_bounds) simp
    ultimately show "0 \<le> x" by simp
  qed
  from sc ne have mne: "masks \<noteq> []"
    by auto
  have wsum: "1 \<le> sum_list (map fst masks)"
  proof -
    from mne obtain m ms where m: "masks = m # ms" by (cases masks) auto
    have "0 \<le> sum_list (map fst ms)"
      using assms(2) unfolding m by (intro sum_list_nonneg) auto
    moreover have "1 \<le> fst m" using assms(2) m by simp
    ultimately show ?thesis by (simp add: m)
  qed
  have "0 \<le> sum_list spacings"
    using sp0 by (intro sum_list_nonneg) auto
  with wsum have tpos: "0 < total"
    by (simp add: total_def)
  have "of_int (total_w_scaled l) \<le> s * of_int total"
    using scale_masks_width_sum [OF sc less_imp_le [OF spos] assms(2)]
      spacing_sum [OF less_imp_le [OF spos] sp0]
    by (simp add: total_w_scaled_def sp ls total_def algebra_simps)
  also have "\<dots> \<le> s1 * of_int total"
    using tpos by (simp add: s_def mult_right_mono)
  also have "\<dots> \<le> of_int (fw - 10)"
    using tpos by (auto simp: s1_def mult.commute not_less)
  finally have "total_w_scaled l \<le> fw - 10"
    by (simp only: of_int_le_iff)
  then show ?thesis
    by (simp add: fw_def ls s_def s1_def sf_def total_def sp Let_def)
qed

lemma ex_plan_layout:
  "plan_layout (0, 0, 60, 49) 40 [(30, 40), (36, 40)] ex_company_draws
     = Inr (Some \<lparr>lay_spacings = [2], lay_scale = 25 / 34, lay_scaled = [(22, 29), (26, 29)]\<rparr>)"
  by (simp add: plan_layout_def ex_company_draws_def randint_val_def uniform_def random_unit_def
        box_0_def box_1_def box_2_def box_3_def py_int_def resize_def Let_def)

theorem flowing_width_fits_witness:
  "plan_layout (0, 0, 60, 49) 40 [(30, 40), (36, 40)] ex_company_draws
     = Inr (Some \<lparr>lay_spacings = [2], lay_scale = 25 / 34, lay_scaled = [(22, 29), (26, 29)]\<rparr>)
   \<and> list_all (\<lambda>m. 1 \<le> fst m) [(30 :: int, 40 :: int), (36, 40)]
   \<and> total_w_scaled \<lparr>lay_spacings = [2], lay_scale = 25 / 34, lay_scaled = [(22, 29), (26, 29)]\<rparr>
       \<le> 50"
proof -
  have p: "\<forall>m \<in> set [(30 :: int, 40 :: int), (36, 40)]. 1 \<le> fst m"
    by simp
  from flowing_width_fits [OF ex_plan_layout p]
  have "total_w_scaled \<lparr>lay_spacings = [2], lay_scale = 25 / 34,
                         lay_scaled = [(22, 29), (26, 29)]\<rparr> \<le> 50"
    by (simp add: box_0_def box_2_def)
  with ex_plan_layout show ?thesis
    by simp
qed

text \<open>Scenario A of the specification in small: the label \<open>AA\<close> on the 481 by 43 field.\<close>

lemma ex_flowing_run:
  "generate_synthetic_image ex_pil ex_files ex_backgrounds ex_index ''bg.png'' (147, 58, 628, 101)
     [65, 65] ex_company_draws
   = Inr (Some (\<lparr>out_box = (147, 71, 166, 83), out_ops = [Paste 152 76 2 2, Paste 159 76 2 2]\<rparr>,
                [65, 65]))"
proof -
  have m: "get_char_mask ex_pil ex_files ex_index 65 ex_mask_draws = Inr (Some [[255]])"
    by code_simp
  have g: "get_masks ex_pil ex_files ex_index (cd_mask ex_company_draws) 0 [65, 65]
             = Inr (Some [[[255]], [[255]]])"
    by (simp add: ex_company_draws_def m)
  have i: "ex_index 65 \<noteq> None"
    by (simp add: ex_index_def)
  have n: "normalize_masks 1 [(1, 1), (1, 1)] = Inr [(1, 1), (1, 1)]"
    by (simp add: normalize_one_def py_int_def resize_def)
  have l: "plan_layout (147, 58, 628, 101) 1 [(1, 1), (1, 1)] ex_company_draws
     = Inr (Some \<lparr>lay_spacings = [2], lay_scale = 5 / 2, lay_scaled = [(2, 2), (2, 2)]\<rparr>)"
    by (simp add: plan_layout_def ex_company_draws_def randint_val_def uniform_def random_unit_def
        box_0_def box_1_def box_2_def box_3_def py_int_def resize_def Let_def)
  have c: "compose (147, 58, 628, 101) (700, 600)
             \<lparr>lay_spacings = [2], lay_scale = 5 / 2, lay_scaled = [(2, 2), (2, 2)]\<rparr> ex_company_draws
           = \<lparr>out_box = (147, 71, 166, 83), out_ops = [Paste 152 76 2 2, Paste 159 76 2 2]\<rparr>"
    by (simp add: compose_def total_w_scaled_def ex_company_draws_def randint_val_def
        box_0_def box_1_def box_2_def box_3_def py_int_def Let_def)
  show ?thesis
    by (simp add: generate_synthetic_image_def i g mask_size_def img_width_def img_height_def
          py_max_def n l c ex_backgrounds_def del: get_masks.simps normalize_masks.simps)
qed


end
